theory Spec2Isabelle
  imports Complex_Main
begin

section \<open>Python values, descriptors and the outside world\<close>

text \<open>
  The module \<^verbatim>\<open>datapackage/resource.py\<close> resolves a resource descriptor (the
  \<^verbatim>\<open>metadata\<close> dict) into content. A Python value is modelled as
  \<open>pyval option\<close>: Python's \<^verbatim>\<open>None\<close> is HOL's \<open>None\<close>, every other value is
  \<open>Some v\<close>. Only the Python 3 branch of the module is modelled
  (\<^verbatim>\<open>six.PY2\<close> is false, \<^verbatim>\<open>_csv_dictreader = csv.DictReader\<close>).
\<close>

datatype pyval =
    PBool bool
  | PInt int
  | PFloat real
  | PStr string
  | PList "pyval option list"
  | PTuple "pyval option list"
  | PDict "(pyval option \<times> pyval option) list"

text \<open>\<^verbatim>\<open>type(data).__name__\<close>\<close>

fun type_name :: "pyval option \<Rightarrow> string" where
  "type_name None = ''NoneType''"
| "type_name (Some (PBool _)) = ''bool''"
| "type_name (Some (PInt _)) = ''int''"
| "type_name (Some (PFloat _)) = ''float''"
| "type_name (Some (PStr _)) = ''str''"
| "type_name (Some (PList _)) = ''list''"
| "type_name (Some (PTuple _)) = ''tuple''"
| "type_name (Some (PDict _)) = ''dict''"

text \<open>
  The descriptor. The module reads \<^verbatim>\<open>data\<close>, \<^verbatim>\<open>path\<close> and \<^verbatim>\<open>url\<close> with
  \<^verbatim>\<open>metadata.get\<close>, so for these an absent key and a key bound to \<^verbatim>\<open>None\<close> are the
  same to it: both are \<open>None\<close> here. A value that is present is an object: the pair of
  its identity (what \<^verbatim>\<open>id()\<close> returns) and its value. \<^verbatim>\<open>path\<close> and \<^verbatim>\<open>url\<close> are
  strings. The key \<^verbatim>\<open>base\<close> is absent (\<open>None\<close>) or bound to a string.
\<close>

record descriptor =
  md_data :: "(nat \<times> pyval) option"
  md_path :: "(nat \<times> string) option"
  md_url :: "(nat \<times> string) option"
  md_base :: "string option"

text \<open>\<^verbatim>\<open>id(metadata.get(k))\<close>: \<open>None\<close> is the identity of the \<^verbatim>\<open>None\<close> singleton.\<close>

definition py_id :: "(nat \<times> 'a) option \<Rightarrow> nat option" where
  "py_id x = map_option fst x"

text \<open>The value of \<^verbatim>\<open>metadata.get(k)\<close>.\<close>

definition py_get :: "(nat \<times> 'a) option \<Rightarrow> 'a option" where
  "py_get x = map_option snd x"

text \<open>Truth value of an optional string: \<^verbatim>\<open>None\<close> and \<^verbatim>\<open>''\<close> are false.\<close>

fun truthy :: "string option \<Rightarrow> bool" where
  "truthy None = False"
| "truthy (Some s) = (s \<noteq> [])"

text \<open>
  The outside world and the library functions the module calls, as they answer during
  one operation: \<^verbatim>\<open>os.path.isfile\<close>, \<^verbatim>\<open>open(path, 'r').read()\<close>,
  \<^verbatim>\<open>requests.get(url)\<close> followed by \<^verbatim>\<open>raise_for_status()\<close> and \<^verbatim>\<open>.text\<close>,
  \<^verbatim>\<open>os.path.join\<close>, \<^verbatim>\<open>json.loads\<close> and the list of rows of \<^verbatim>\<open>csv.DictReader\<close>.

  \<^verbatim>\<open>requests.get\<close> has three outcomes. It sends the request and the answer is a
  success (\<open>ResponseText\<close>); it sends the request and the transport fails or the status is
  no success (\<open>RequestFailed\<close>); or it raises before anything is sent, because the string
  is no URL it can request, as for a text without scheme (\<open>InvalidURL\<close>: the exceptions
  \<^verbatim>\<open>MissingSchema\<close>, \<^verbatim>\<open>InvalidSchema\<close>, \<^verbatim>\<open>InvalidURL\<close> of the library). All the
  exceptions are \<^verbatim>\<open>RequestException\<close>s.
\<close>

datatype read_outcome =
    FileText string
  | FileIOError string
  | FileDecodeError string

datatype get_outcome =
    ResponseText string
  | RequestFailed string
  | InvalidURL string

datatype json_outcome =
    Parsed "pyval option"
  | JSONRaises

datatype csv_outcome =
    Rows "pyval option list"
  | CsvRaises string

record env =
  isfile :: "string \<Rightarrow> bool"
  open_read :: "string \<Rightarrow> read_outcome"
  requests_get :: "string \<Rightarrow> get_outcome"
  path_join :: "string \<Rightarrow> string \<Rightarrow> string"
  json_loads :: "string \<Rightarrow> json_outcome"
  csv_dictreader :: "string \<Rightarrow> csv_outcome"

text \<open>
  Exceptions. \<open>ResourceError\<close> wraps the \<^verbatim>\<open>IOError\<close> or the
  \<^verbatim>\<open>requests.exceptions.RequestException\<close> it was raised from. \<open>ValueError\<close> is the
  error of \<^verbatim>\<open>_raise_if_isnt_tabular_data\<close>, with its message.
\<close>

datatype cause =
    IOError string
  | RequestException string

datatype exn =
    ResourceError cause
  | UnicodeDecodeError string
  | TypeError
  | csv_Error string
  | ValueError string

text \<open>
  Modelled from the spec: the module \<^verbatim>\<open>datapackage/exceptions.py\<close>, which declares
  \<^verbatim>\<open>ResourceError\<close>, is not among the sources. The spec's FetchError is a kind of
  its own, distinct from the type-mismatch error, so \<open>ResourceError\<close> is no
  \<^verbatim>\<open>ValueError\<close>. \<^verbatim>\<open>UnicodeDecodeError\<close> is a subclass of \<^verbatim>\<open>ValueError\<close> in
  Python; \<^verbatim>\<open>TypeError\<close> and \<^verbatim>\<open>csv.Error\<close> are not.
\<close>

fun isinstance_ValueError :: "exn \<Rightarrow> bool" where
  "isinstance_ValueError (ValueError _) = True"
| "isinstance_ValueError (UnicodeDecodeError _) = True"
| "isinstance_ValueError (ResourceError _) = False"
| "isinstance_ValueError TypeError = False"
| "isinstance_ValueError (csv_Error _) = False"

fun isinstance_ResourceError :: "exn \<Rightarrow> bool" where
  "isinstance_ResourceError (ResourceError _) = True"
| "isinstance_ResourceError _ = False"

text \<open>
  What an operation did, in order: \<open>Fetch\<close> marks one run of the fetch pipeline
  \<^verbatim>\<open>_load_data\<close>; the others are the calls of \<^verbatim>\<open>os.path.isfile\<close> and of
  \<^verbatim>\<open>open\<close>, and the HTTP GET requests that \<^verbatim>\<open>requests.get\<close> sent.
\<close>

datatype event =
    Fetch
  | IsFile string
  | Open string
  | Get string

section \<open>The classes\<close>

datatype kind = ResourceK | TabularResourceK

record metadata_ids =
  data_id :: "nat option"
  data_path_id :: "nat option"
  data_url_id :: "nat option"

text \<open>
  An instance: its class and the attributes \<^verbatim>\<open>_metadata\<close>, \<^verbatim>\<open>_base_path\<close>,
  \<^verbatim>\<open>_data\<close> and \<^verbatim>\<open>_original_metadata_data_ids\<close>. The instance holds the caller's
  dict itself, not a copy: a replacement the caller makes under a key of the dict is an
  update of \<open>self_metadata\<close>.
\<close>

record resource =
  self_cls :: kind
  self_metadata :: descriptor
  self_base_path :: "string option"
  self_data :: "pyval option"
  self_original_metadata_data_ids :: metadata_ids

definition metadata_data_ids :: "descriptor \<Rightarrow> metadata_ids" where
  "metadata_data_ids metadata =
     \<lparr> data_id = py_id (md_data metadata),
       data_path_id = py_id (md_path metadata),
       data_url_id = py_id (md_url metadata) \<rparr>"

definition metadata_data_has_changed :: "resource \<Rightarrow> descriptor \<Rightarrow> bool" where
  "metadata_data_has_changed self metadata =
     (metadata_data_ids metadata \<noteq> self_original_metadata_data_ids self)"

definition absolute_path :: "env \<Rightarrow> resource \<Rightarrow> string option \<Rightarrow> string option" where
  "absolute_path e self path =
     (case path of
        None \<Rightarrow> None
      | Some p \<Rightarrow>
          (case self_base_path self of
             None \<Rightarrow> Some p
           | Some b \<Rightarrow> Some (path_join e b p)))"

text \<open>
  The property \<^verbatim>\<open>local_data_path\<close>. It reads \<^verbatim>\<open>self.metadata\<close>, and asks
  \<^verbatim>\<open>os.path.isfile\<close> only for a non-empty path.
\<close>

definition local_data_path :: "env \<Rightarrow> resource \<Rightarrow> string option \<times> event list" where
  "local_data_path e self =
     (let path = absolute_path e self (py_get (md_path (self_metadata self)))
      in case path of
           None \<Rightarrow> (None, [])
         | Some p \<Rightarrow>
             (if p = [] then (None, [])
              else if isfile e p then (Some p, [IsFile p])
              else (None, [IsFile p])))"

text \<open>\<^verbatim>\<open>_load_data_from_path\<close>; \<^verbatim>\<open>open(None)\<close> raises \<^verbatim>\<open>TypeError\<close>.\<close>

definition load_data_from_path :: "env \<Rightarrow> string option \<Rightarrow> (exn + string) \<times> event list" where
  "load_data_from_path e path =
     (case path of
        None \<Rightarrow> (Inl TypeError, [])
      | Some p \<Rightarrow>
          (case open_read e p of
             FileText s \<Rightarrow> (Inr s, [Open p])
           | FileIOError m \<Rightarrow> (Inl (ResourceError (IOError m)), [Open p])
           | FileDecodeError m \<Rightarrow> (Inl (UnicodeDecodeError m), [Open p])))"

definition load_data_from_url :: "env \<Rightarrow> string \<Rightarrow> (exn + string) \<times> event list" where
  "load_data_from_url e url =
     (case requests_get e url of
        ResponseText s \<Rightarrow> (Inr s, [Get url])
      | RequestFailed m \<Rightarrow> (Inl (ResourceError (RequestException m)), [Get url])
      | InvalidURL m \<Rightarrow> (Inl (ResourceError (RequestException m)), []))"

text \<open>
  The body of the first \<^verbatim>\<open>try\<close> of \<^verbatim>\<open>_load_data\<close>: the property
  \<^verbatim>\<open>local_data_path\<close> is evaluated once for the test and once more for the argument.
  \<^verbatim>\<open>_absolute_path\<close> of a string is a string, so the branch for \<open>None\<close> is never
  taken.
\<close>

definition load_data_path_attempt ::
  "env \<Rightarrow> resource \<Rightarrow> string \<Rightarrow> (exn + string) \<times> event list" where
  "load_data_path_attempt e self data_path =
     (case local_data_path e self of
        (p1, t1) \<Rightarrow>
          (if truthy p1 then
             (case local_data_path e self of
                (p2, t2) \<Rightarrow>
                  (case load_data_from_path e p2 of
                     (r, t3) \<Rightarrow> (r, t1 @ t2 @ t3)))
           else
             (case absolute_path e self (Some data_path) of
                None \<Rightarrow> (Inl TypeError, t1)
              | Some url \<Rightarrow>
                  (case load_data_from_url e url of
                     (r, t2) \<Rightarrow> (r, t1 @ t2)))))"

text \<open>
  \<^verbatim>\<open>_load_data\<close>. The local variables \<^verbatim>\<open>data\<close> and \<^verbatim>\<open>error\<close> are threaded
  through the two guarded attempts; an exception that is no \<^verbatim>\<open>ResourceError\<close> leaves
  the function at once.
\<close>

definition load_data ::
  "env \<Rightarrow> resource \<Rightarrow> descriptor \<Rightarrow> (exn + pyval option) \<times> event list" where
  "load_data e self metadata =
     (let inline_data = py_get (md_data metadata);
          data_path = py_get (md_path metadata);
          data_url = py_get (md_url metadata)
      in case
           (case data_path of
              Some p \<Rightarrow>
                (if inline_data = None \<and> truthy data_path then
                   (case load_data_path_attempt e self p of
                      (Inr s, t) \<Rightarrow> (Inr (Some (PStr s), None), t)
                    | (Inl ex, t) \<Rightarrow>
                        (if isinstance_ResourceError ex then (Inr (None, Some ex), t)
                         else (Inl ex, t)))
                 else (Inr (inline_data, None), []))
            | None \<Rightarrow> (Inr (inline_data, None), []))
         of
           (Inl ex, t1) \<Rightarrow> (Inl ex, Fetch # t1)
         | (Inr (data1, error1), t1) \<Rightarrow>
             (case
                (case data_url of
                   Some u \<Rightarrow>
                     (if data1 = None \<and> truthy data_url then
                        (case load_data_from_url e u of
                           (Inr s, t) \<Rightarrow> (Inr (Some (PStr s), error1), t)
                         | (Inl ex, t) \<Rightarrow>
                             (if isinstance_ResourceError ex then
                                (Inr (None, if error1 = None then Some ex else error1), t)
                              else (Inl ex, t)))
                      else (Inr (data1, error1), []))
                 | None \<Rightarrow> (Inr (data1, error1), []))
              of
                (Inl ex, t2) \<Rightarrow> (Inl ex, Fetch # t1 @ t2)
              | (Inr (data2, error2), t2) \<Rightarrow>
                  (case error2 of
                     Some err \<Rightarrow>
                       (if data2 = None then (Inl err, Fetch # t1 @ t2)
                        else (Inr data2, Fetch # t1 @ t2))
                   | None \<Rightarrow> (Inr data2, Fetch # t1 @ t2))))"

text \<open>
  \<^verbatim>\<open>Resource._parse_data\<close>: the snapshot of the identities is stored first, then the
  content is fetched. The instance is returned with the result, since the snapshot stays
  stored when the fetch raises.
\<close>

definition Resource_parse_data ::
  "env \<Rightarrow> resource \<Rightarrow> descriptor \<Rightarrow> (exn + pyval option) \<times> resource \<times> event list" where
  "Resource_parse_data e self metadata =
     (let self' = self\<lparr>self_original_metadata_data_ids := metadata_data_ids metadata\<rparr>
      in case load_data e self' metadata of
           (r, t) \<Rightarrow> (r, self', t))"

definition quote :: string where
  "quote = [CHR 0x27]"

text \<open>\<^verbatim>\<open>TabularResource._raise_if_isnt_tabular_data\<close>\<close>

definition tabular_types :: "string list" where
  "tabular_types = [''list'', ''tuple'']"

fun join_str :: "string \<Rightarrow> string list \<Rightarrow> string" where
  "join_str sep [] = []"
| "join_str sep [x] = x"
| "join_str sep (x # y # ys) = x @ sep @ join_str sep (y # ys)"

definition raise_if_isnt_tabular_data :: "pyval option \<Rightarrow> exn + unit" where
  "raise_if_isnt_tabular_data data' =
     (let valid = list_ex (\<lambda>tabular_type. type_name data' = tabular_type) tabular_types
      in if \<not> valid then
           Inl (ValueError
             (''Expected data type to be any of '' @ quote @ join_str '', '' tabular_types
               @ quote @ '' but it was '' @ quote @ type_name data' @ quote))
         else Inr ())"

text \<open>
  \<^verbatim>\<open>TabularResource._parse_data\<close>: a string is given to \<^verbatim>\<open>json.loads\<close>; when that
  raises \<^verbatim>\<open>ValueError\<close> the rows of the CSV reader are collected, and an empty list of
  rows is replaced by \<^verbatim>\<open>None\<close>. The value is then checked.
\<close>

definition TabularResource_parse_data ::
  "env \<Rightarrow> resource \<Rightarrow> descriptor \<Rightarrow> (exn + pyval option) \<times> resource \<times> event list" where
  "TabularResource_parse_data e self metadata =
     (case Resource_parse_data e self metadata of
        (Inl ex, self', t) \<Rightarrow> (Inl ex, self', t)
      | (Inr data0, self', t) \<Rightarrow>
          (case
             (case data0 of
                Some (PStr s) \<Rightarrow>
                  (case json_loads e s of
                     Parsed v \<Rightarrow> Inr v
                   | JSONRaises \<Rightarrow>
                       (case csv_dictreader e s of
                          Rows rows \<Rightarrow> Inr (if rows = [] then None else Some (PList rows))
                        | CsvRaises m \<Rightarrow> Inl (csv_Error m)))
              | _ \<Rightarrow> Inr data0)
           of
             Inl ex \<Rightarrow> (Inl ex, self', t)
           | Inr data1 \<Rightarrow>
               (case raise_if_isnt_tabular_data data1 of
                  Inl ex \<Rightarrow> (Inl ex, self', t)
                | Inr _ \<Rightarrow> (Inr data1, self', t))))"

text \<open>The call \<^verbatim>\<open>self._parse_data(metadata)\<close> is dispatched on the class of \<open>self\<close>.\<close>

definition parse_data ::
  "env \<Rightarrow> resource \<Rightarrow> descriptor \<Rightarrow> (exn + pyval option) \<times> resource \<times> event list" where
  "parse_data e self metadata =
     (case self_cls self of
        ResourceK \<Rightarrow> Resource_parse_data e self metadata
      | TabularResourceK \<Rightarrow> TabularResource_parse_data e self metadata)"

text \<open>
  \<^verbatim>\<open>__init__\<close>, for an instance of class \<open>k\<close>. Until \<^verbatim>\<open>_parse_data\<close> has run the
  attributes \<^verbatim>\<open>_data\<close> and \<^verbatim>\<open>_original_metadata_data_ids\<close> do not exist; the values
  they start with here are never read. When \<^verbatim>\<open>_parse_data\<close> raises there is no
  instance.
\<close>

definition init ::
  "kind \<Rightarrow> env \<Rightarrow> descriptor \<Rightarrow> string option \<Rightarrow> (exn + resource) \<times> event list" where
  "init k e metadata default_base_path =
     (let self0 =
        \<lparr> self_cls = k,
          self_metadata = metadata,
          self_base_path =
            (case md_base metadata of Some b \<Rightarrow> Some b | None \<Rightarrow> default_base_path),
          self_data = None,
          self_original_metadata_data_ids =
            \<lparr> data_id = None, data_path_id = None, data_url_id = None \<rparr> \<rparr>
      in case parse_data e self0 metadata of
           (Inl ex, self1, t) \<Rightarrow> (Inl ex, t)
         | (Inr d, self1, t) \<Rightarrow> (Inr (self1\<lparr>self_data := d\<rparr>), t))"

text \<open>
  The factory, the class method \<^verbatim>\<open>load\<close>; \<open>cls\<close> is the class it is called on
  (\<^verbatim>\<open>Resource.load\<close> is \<open>load ResourceK\<close>).
\<close>

definition load ::
  "kind \<Rightarrow> env \<Rightarrow> descriptor \<Rightarrow> string option \<Rightarrow> (exn + resource) \<times> event list" where
  "load cls e metadata default_base_path =
     (case init TabularResourceK e metadata default_base_path of
        (Inr resource, t) \<Rightarrow> (Inr resource, t)
      | (Inl ex, t) \<Rightarrow>
          (if isinstance_ValueError ex then
             (case init cls e metadata default_base_path of
                (r, t2) \<Rightarrow> (r, t @ t2))
           else (Inl ex, t)))"

text \<open>The property \<^verbatim>\<open>data\<close>: the result, the instance afterwards, and what was done.\<close>

definition data ::
  "env \<Rightarrow> resource \<Rightarrow> (exn + pyval option) \<times> resource \<times> event list" where
  "data e self =
     (if metadata_data_has_changed self (self_metadata self) then
        (case parse_data e self (self_metadata self) of
           (Inl ex, self', t) \<Rightarrow> (Inl ex, self', t)
         | (Inr d, self', t) \<Rightarrow> (Inr d, self'\<lparr>self_data := d\<rparr>, t))
      else (Inr (self_data self), self, []))"

section \<open>Notions the properties are stated with\<close>

text \<open>
  The location \<^verbatim>\<open>_absolute_path\<close> computes for the path \<open>p\<close> in an instance made from
  \<open>metadata\<close> and \<open>default_base_path\<close>.
\<close>

definition located :: "env \<Rightarrow> descriptor \<Rightarrow> string option \<Rightarrow> string \<Rightarrow> string" where
  "located e metadata default_base_path p =
     (case (case md_base metadata of Some b \<Rightarrow> Some b | None \<Rightarrow> default_base_path) of
        None \<Rightarrow> p
      | Some b \<Rightarrow> path_join e b p)"

text \<open>
  The descriptor has no inline data, and its path names the existing local file \<open>f\<close>,
  which reads as the text \<open>s\<close>.
\<close>

definition path_names_local_file ::
  "env \<Rightarrow> descriptor \<Rightarrow> string option \<Rightarrow> string \<Rightarrow> string \<Rightarrow> bool" where
  "path_names_local_file e metadata default_base_path f s =
     (md_data metadata = None \<and>
      (case md_path metadata of
         None \<Rightarrow> False
       | Some (i, p) \<Rightarrow>
           p \<noteq> [] \<and> f = located e metadata default_base_path p \<and> f \<noteq> [] \<and>
           isfile e f \<and> open_read e f = FileText s))"

text \<open>
  The instance of class \<open>k\<close> made from \<open>metadata\<close> once its snapshot is stored and its
  attribute \<^verbatim>\<open>_data\<close> is \<open>d\<close>.
\<close>

definition stored :: "kind \<Rightarrow> descriptor \<Rightarrow> string option \<Rightarrow> pyval option \<Rightarrow> resource" where
  "stored k metadata default_base_path d =
     \<lparr> self_cls = k,
       self_metadata = metadata,
       self_base_path =
         (case md_base metadata of Some b \<Rightarrow> Some b | None \<Rightarrow> default_base_path),
       self_data = d,
       self_original_metadata_data_ids = metadata_data_ids metadata \<rparr>"

text \<open>One run of the fetch pipeline for a descriptor, as a constructor starts it.\<close>

definition fetch ::
  "env \<Rightarrow> descriptor \<Rightarrow> string option \<Rightarrow> (exn + pyval option) \<times> event list" where
  "fetch e metadata default_base_path =
     load_data e (stored ResourceK metadata default_base_path None) metadata"

text \<open>
  What \<^verbatim>\<open>TabularResource._parse_data\<close> makes of the content it was given by
  \<^verbatim>\<open>Resource._parse_data\<close>: the lines after the call of \<^verbatim>\<open>super\<close>.
\<close>

definition tabular_value :: "env \<Rightarrow> pyval option \<Rightarrow> exn + pyval option" where
  "tabular_value e data0 =
     (case
        (case data0 of
           Some (PStr s) \<Rightarrow>
             (case json_loads e s of
                Parsed v \<Rightarrow> Inr v
              | JSONRaises \<Rightarrow>
                  (case csv_dictreader e s of
                     Rows rows \<Rightarrow> Inr (if rows = [] then None else Some (PList rows))
                   | CsvRaises m \<Rightarrow> Inl (csv_Error m)))
         | _ \<Rightarrow> Inr data0)
      of
        Inl ex \<Rightarrow> Inl ex
      | Inr data1 \<Rightarrow>
          (case raise_if_isnt_tabular_data data1 of
             Inl ex \<Rightarrow> Inl ex
           | Inr _ \<Rightarrow> Inr data1))"

text \<open>The exceptions that only the tabular interpretation raises.\<close>

fun tabular_only :: "exn \<Rightarrow> bool" where
  "tabular_only (ValueError _) = True"
| "tabular_only (csv_Error _) = True"
| "tabular_only _ = False"

text \<open>The message of the type-mismatch error for a value.\<close>

definition mismatch :: "pyval option \<Rightarrow> exn" where
  "mismatch d =
     ValueError
       (''Expected data type to be any of '' @ quote @ ''list, tuple'' @ quote
         @ '' but it was '' @ quote @ type_name d @ quote)"








text \<open>The numbers of file reads and of HTTP GET requests in a trace.\<close>

fun is_Open :: "event \<Rightarrow> bool" where
  "is_Open (Open _) = True"
| "is_Open _ = False"

fun is_Get :: "event \<Rightarrow> bool" where
  "is_Get (Get _) = True"
| "is_Get _ = False"

definition file_reads :: "event list \<Rightarrow> nat" where
  "file_reads t = length (filter is_Open t)"

definition http_gets :: "event list \<Rightarrow> nat" where
  "http_gets t = length (filter is_Get t)"

definition fetches :: "event list \<Rightarrow> nat" where
  "fetches t = count_list t Fetch"

text \<open>
  A run of the caller against one instance: before each access of \<^verbatim>\<open>data\<close> the caller
  leaves the dict as \<open>metadata\<close> (replacing what it likes), and the world answers as
  \<open>e\<close>. The results of the accesses are collected.
\<close>

fun accesses :: "(descriptor \<times> env) list \<Rightarrow> resource \<Rightarrow> (exn + pyval option) list" where
  "accesses [] self = []"
| "accesses ((metadata, e) # rest) self =
     (case data e (self\<lparr>self_metadata := metadata\<rparr>) of
        (x, self', t) \<Rightarrow> x # accesses rest self')"

section \<open>A concrete world\<close>

text \<open>
  Four local files that can be read, one that cannot be opened and one whose bytes cannot
  be decoded, one URL that answers, every other text that starts with \<^verbatim>\<open>http://\<close> a
  URL whose request fails, every text without that scheme no URL at all,
  \<^verbatim>\<open>posixpath.join\<close>, the values
  \<^verbatim>\<open>json.loads\<close> returns for the two JSON texts below (it raises on the others), and
  the rows \<^verbatim>\<open>csv.DictReader\<close> yields for text without quotes or carriage returns.
\<close>

definition array_text :: string where
  "array_text = ''[1,2,3]''"

definition object_text :: string where
  \<open>object_text = ''{"x": 1}''\<close>

definition csv_text :: string where
  "csv_text = ''a,b\<newline>1,2\<newline>''"

definition header_only_text :: string where
  "header_only_text = ''a,b\<newline>''"

definition array_value :: "pyval option" where
  "array_value = Some (PList [Some (PInt 1), Some (PInt 2), Some (PInt 3)])"

definition object_value :: "pyval option" where
  "object_value = Some (PDict [(Some (PStr ''x''), Some (PInt 1))])"

definition csv_rows :: "pyval option list" where
  "csv_rows =
     [Some (PDict [(Some (PStr ''a''), Some (PStr ''1'')),
                   (Some (PStr ''b''), Some (PStr ''2''))])]"

definition demo_files :: "(string \<times> string) list" where
  "demo_files =
     [(''data.csv'', csv_text), (''array.json'', array_text),
      (''object.json'', object_text), (''header.csv'', header_only_text)]"

definition demo_json_loads :: "string \<Rightarrow> json_outcome" where
  "demo_json_loads s =
     (if s = array_text then Parsed array_value
      else if s = object_text then Parsed object_value
      else JSONRaises)"

fun split_on :: "char \<Rightarrow> string \<Rightarrow> string list" where
  "split_on c [] = [[]]"
| "split_on c (x # xs) =
     (if x = c then [] # split_on c xs
      else (case split_on c xs of
              [] \<Rightarrow> [[x]]
            | y # ys \<Rightarrow> (x # y) # ys))"

definition demo_csv_row :: "string list \<Rightarrow> string list \<Rightarrow> pyval option" where
  "demo_csv_row fieldnames row =
     Some (PDict
       (zip (map (\<lambda>k. Some (PStr k)) fieldnames) (map (\<lambda>v. Some (PStr v)) row)
        @ (if length fieldnames < length row then
             [(None, Some (PList (map (\<lambda>v. Some (PStr v)) (drop (length fieldnames) row))))]
           else map (\<lambda>k. (Some (PStr k), None)) (drop (length row) fieldnames))))"

definition demo_csv_dictreader :: "string \<Rightarrow> csv_outcome" where
  "demo_csv_dictreader s =
     (case filter (\<lambda>l. l \<noteq> []) (split_on (CHR 0x0A) s) of
        [] \<Rightarrow> Rows []
      | header # lines \<Rightarrow>
          Rows (map (\<lambda>l. demo_csv_row (split_on (CHR '','') header) (split_on (CHR '','') l))
                 lines))"

definition posix_join :: "string \<Rightarrow> string \<Rightarrow> string" where
  "posix_join a b =
     (if take 1 b = ''/'' then b
      else if a = [] \<or> last a = CHR ''/'' then a @ b
      else a @ ''/'' @ b)"

definition object_url :: string where
  "object_url = ''http://example.com/object.json''"

definition demo_env :: env where
  "demo_env =
     \<lparr> isfile = (\<lambda>p. List.member (map fst demo_files @ [''locked.csv'', ''latin1.csv'']) p),
       open_read = (\<lambda>p. if p = ''latin1.csv'' then FileDecodeError ''invalid start byte''
                         else (case map_of demo_files p of
                                 Some s \<Rightarrow> FileText s
                               | None \<Rightarrow> FileIOError (''cannot open '' @ p))),
       requests_get = (\<lambda>u. if u = object_url then ResponseText object_text
                            else if take 7 u = ''http://'' then
                              RequestFailed (''no answer from '' @ u)
                            else InvalidURL (''no scheme in '' @ u)),
       path_join = posix_join,
       json_loads = demo_json_loads,
       csv_dictreader = demo_csv_dictreader \<rparr>"

text \<open>The descriptor \<^verbatim>\<open>{'path': p}\<close>, the string being the object \<open>i\<close>.\<close>

definition path_descriptor :: "nat \<Rightarrow> string \<Rightarrow> descriptor" where
  "path_descriptor i p =
     \<lparr> md_data = None, md_path = Some (i, p), md_url = None, md_base = None \<rparr>"

text \<open>The descriptor \<^verbatim>\<open>{'data': v}\<close>, the value being the object \<open>i\<close>.\<close>

definition data_descriptor :: "nat \<Rightarrow> pyval \<Rightarrow> descriptor" where
  "data_descriptor i v =
     \<lparr> md_data = Some (i, v), md_path = None, md_url = None, md_base = None \<rparr>"


text \<open>The type-mismatch message for a value of the type called \<open>n\<close>.\<close>

definition mismatch_message :: "string \<Rightarrow> string" where
  "mismatch_message n =
     ''Expected data type to be any of '' @ quote @ ''list, tuple'' @ quote
       @ '' but it was '' @ quote @ n @ quote"


section \<open>Facts about the fetch pipeline and the constructors\<close>

lemma local_data_path_no_fetch: "local_data_path e self = (x, t) \<Longrightarrow> Fetch \<notin> set t"
  by (auto simp: local_data_path_def Let_def split: option.splits if_splits)

lemma load_data_from_path_no_fetch: "load_data_from_path e p = (x, t) \<Longrightarrow> Fetch \<notin> set t"
  by (auto simp: load_data_from_path_def split: option.splits read_outcome.splits)

lemma load_data_from_url_no_fetch: "load_data_from_url e u = (x, t) \<Longrightarrow> Fetch \<notin> set t"
  by (auto simp: load_data_from_url_def split: get_outcome.splits)

lemma load_data_path_attempt_no_fetch:
  "load_data_path_attempt e self p = (x, t) \<Longrightarrow> Fetch \<notin> set t"
  by (auto simp: load_data_path_attempt_def split: prod.splits option.splits if_splits
      dest: local_data_path_no_fetch load_data_from_path_no_fetch load_data_from_url_no_fetch)

lemma load_data_from_path_exn:
  "load_data_from_path e p = (Inl ex, t) \<Longrightarrow> \<not> tabular_only ex"
  by (auto simp: load_data_from_path_def split: option.splits read_outcome.splits)

lemma load_data_from_url_exn:
  "load_data_from_url e u = (Inl ex, t) \<Longrightarrow> isinstance_ResourceError ex"
  by (auto simp: load_data_from_url_def split: get_outcome.splits)

lemma load_data_path_attempt_exn:
  "load_data_path_attempt e self p = (Inl ex, t) \<Longrightarrow> \<not> tabular_only ex"
  by (cases ex)
    (auto simp: load_data_path_attempt_def split: prod.splits option.splits if_splits
      dest: load_data_from_path_exn load_data_from_url_exn)

lemma load_data_exn:
  "load_data e self md = (Inl ex, t) \<Longrightarrow> \<not> tabular_only ex"
  by (cases ex)
    (auto simp: load_data_def Let_def split: prod.splits option.splits if_splits sum.splits
      dest: load_data_path_attempt_exn load_data_from_url_exn)

lemma load_data_trace:
  "load_data e self md = (x, t) \<Longrightarrow> \<exists>t'. t = Fetch # t' \<and> Fetch \<notin> set t'"
  by (auto simp: load_data_def Let_def split: prod.splits option.splits sum.splits if_splits
      dest: load_data_path_attempt_no_fetch load_data_from_url_no_fetch)

lemma absolute_path_frame:
  "absolute_path e (self\<lparr>self_original_metadata_data_ids := x\<rparr>) = absolute_path e self"
  "absolute_path e (self\<lparr>self_data := d\<rparr>) = absolute_path e self"
  "absolute_path e (self\<lparr>self_cls := k\<rparr>) = absolute_path e self"
  by (simp_all add: absolute_path_def fun_eq_iff split: option.split)

lemma local_data_path_frame:
  "local_data_path e (self\<lparr>self_original_metadata_data_ids := x\<rparr>) = local_data_path e self"
  "local_data_path e (self\<lparr>self_data := d\<rparr>) = local_data_path e self"
  "local_data_path e (self\<lparr>self_cls := k\<rparr>) = local_data_path e self"
  by (simp_all add: local_data_path_def absolute_path_frame)

lemma load_data_path_attempt_frame:
  "load_data_path_attempt e (self\<lparr>self_original_metadata_data_ids := x\<rparr>) =
     load_data_path_attempt e self"
  "load_data_path_attempt e (self\<lparr>self_data := d\<rparr>) = load_data_path_attempt e self"
  "load_data_path_attempt e (self\<lparr>self_cls := k\<rparr>) = load_data_path_attempt e self"
  by (simp_all add: load_data_path_attempt_def local_data_path_frame absolute_path_frame fun_eq_iff
      cong: prod.case_cong option.case_cong if_cong)

lemma load_data_frame:
  "load_data e (self\<lparr>self_original_metadata_data_ids := x\<rparr>) = load_data e self"
  "load_data e (self\<lparr>self_data := d\<rparr>) = load_data e self"
  "load_data e (self\<lparr>self_cls := k\<rparr>) = load_data e self"
  by (simp_all add: load_data_def load_data_path_attempt_frame fun_eq_iff
      cong: prod.case_cong option.case_cong if_cong)


lemma raise_if_isnt_tabular_data_eq:
  "raise_if_isnt_tabular_data d =
     (if type_name d = ''list'' \<or> type_name d = ''tuple'' then Inr () else Inl (mismatch d))"
  by (simp add: raise_if_isnt_tabular_data_def tabular_types_def mismatch_def)

lemma tabular_value_exn: "tabular_value e d = Inl ex \<Longrightarrow> tabular_only ex"
  by (auto simp: tabular_value_def raise_if_isnt_tabular_data_eq mismatch_def
      split: option.splits pyval.splits json_outcome.splits csv_outcome.splits if_splits sum.splits)

lemma Resource_parse_data_eq:
  "Resource_parse_data e self md =
     (fst (load_data e self md),
      self\<lparr>self_original_metadata_data_ids := metadata_data_ids md\<rparr>,
      snd (load_data e self md))"
  by (simp add: Resource_parse_data_def Let_def load_data_frame split: prod.split)

lemma TabularResource_parse_data_eq:
  "TabularResource_parse_data e self md =
     (case fst (load_data e self md) of
        Inl ex \<Rightarrow> Inl ex
      | Inr d \<Rightarrow> tabular_value e d,
      self\<lparr>self_original_metadata_data_ids := metadata_data_ids md\<rparr>,
      snd (load_data e self md))"
  by (simp add: TabularResource_parse_data_def Resource_parse_data_eq tabular_value_def
      split: sum.split)

lemma fetch_eq:
  "load_data e
     \<lparr> self_cls = k, self_metadata = md,
       self_base_path = (case md_base md of Some b \<Rightarrow> Some b | None \<Rightarrow> dbp),
       self_data = d, self_original_metadata_data_ids = x \<rparr> md = fetch e md dbp"
proof -
  have "load_data e (((stored ResourceK md dbp None)\<lparr>self_cls := k\<rparr>)\<lparr>self_data := d\<rparr>
          \<lparr>self_original_metadata_data_ids := x\<rparr>) md = fetch e md dbp"
    unfolding load_data_frame fetch_def ..
  then show ?thesis by (simp add: stored_def)
qed

lemma init_Resource:
  "init ResourceK e md dbp =
     (case fst (fetch e md dbp) of
        Inl ex \<Rightarrow> Inl ex
      | Inr d \<Rightarrow> Inr (stored ResourceK md dbp d),
      snd (fetch e md dbp))"
  by (simp add: init_def parse_data_def Resource_parse_data_eq fetch_eq stored_def
      split: sum.split)

lemma init_TabularResource:
  "init TabularResourceK e md dbp =
     (case fst (fetch e md dbp) of
        Inl ex \<Rightarrow> Inl ex
      | Inr d \<Rightarrow>
          (case tabular_value e d of
             Inl ex \<Rightarrow> Inl ex
           | Inr d1 \<Rightarrow> Inr (stored TabularResourceK md dbp d1)),
      snd (fetch e md dbp))"
  by (simp add: init_def parse_data_def TabularResource_parse_data_eq fetch_eq stored_def
      split: sum.split)

lemma fetch_exn: "fst (fetch e md dbp) = Inl ex \<Longrightarrow> \<not> tabular_only ex"
  using load_data_exn [of e _ md ex] unfolding fetch_def by (metis prod.collapse)

lemma load_Resource:
  "load ResourceK e md dbp =
     (case fst (fetch e md dbp) of
        Inl ex \<Rightarrow>
          (Inl ex, if isinstance_ValueError ex then snd (fetch e md dbp) @ snd (fetch e md dbp)
                   else snd (fetch e md dbp))
      | Inr d \<Rightarrow>
          (case tabular_value e d of
             Inr d1 \<Rightarrow> (Inr (stored TabularResourceK md dbp d1), snd (fetch e md dbp))
           | Inl ex \<Rightarrow>
               (if isinstance_ValueError ex then
                  (Inr (stored ResourceK md dbp d), snd (fetch e md dbp) @ snd (fetch e md dbp))
                else (Inl ex, snd (fetch e md dbp)))))"
  by (simp add: load_def init_Resource init_TabularResource split: sum.split)

lemma fetch_local_file:
  assumes "path_names_local_file e md dbp f s"
  shows "fetch e md dbp = (Inr (Some (PStr s)), [Fetch, IsFile f, IsFile f, Open f])"
  using assms
  by (auto simp: path_names_local_file_def fetch_def load_data_def load_data_path_attempt_def
      local_data_path_def absolute_path_def load_data_from_path_def stored_def located_def
      py_get_def Let_def split: option.splits)

lemma absolute_path_env_frame:
  "absolute_path (e\<lparr>csv_dictreader := c\<rparr>) = absolute_path e"
  by (simp add: absolute_path_def fun_eq_iff split: option.split)

lemma local_data_path_env_frame:
  "local_data_path (e\<lparr>csv_dictreader := c\<rparr>) = local_data_path e"
  by (simp add: local_data_path_def absolute_path_env_frame fun_eq_iff
      cong: option.case_cong if_cong)

lemma load_data_from_path_env_frame:
  "load_data_from_path (e\<lparr>csv_dictreader := c\<rparr>) = load_data_from_path e"
  by (simp add: load_data_from_path_def fun_eq_iff cong: option.case_cong)

lemma load_data_from_url_env_frame:
  "load_data_from_url (e\<lparr>csv_dictreader := c\<rparr>) = load_data_from_url e"
  by (simp add: load_data_from_url_def fun_eq_iff)

lemma load_data_path_attempt_env_frame:
  "load_data_path_attempt (e\<lparr>csv_dictreader := c\<rparr>) = load_data_path_attempt e"
  by (simp add: load_data_path_attempt_def local_data_path_env_frame absolute_path_env_frame
      load_data_from_path_env_frame load_data_from_url_env_frame fun_eq_iff
      cong: prod.case_cong option.case_cong if_cong)

lemma load_data_env_frame:
  "load_data (e\<lparr>csv_dictreader := c\<rparr>) = load_data e"
  by (intro ext, unfold load_data_def load_data_path_attempt_env_frame
      load_data_from_url_env_frame, rule refl)

lemma parse_data_eq:
  "parse_data e self md =
     (case self_cls self of
        ResourceK \<Rightarrow> fst (load_data e self md)
      | TabularResourceK \<Rightarrow>
          (case fst (load_data e self md) of
             Inl ex \<Rightarrow> Inl ex
           | Inr d \<Rightarrow> tabular_value e d),
      self\<lparr>self_original_metadata_data_ids := metadata_data_ids md\<rparr>,
      snd (load_data e self md))"
  by (simp add: parse_data_def Resource_parse_data_eq TabularResource_parse_data_eq
      split: kind.split)

lemma load_data_fetches: "fetches (snd (load_data e self md)) = 1"
proof -
  obtain t' where "snd (load_data e self md) = Fetch # t'" and "Fetch \<notin> set t'"
    using load_data_trace [of e self md "fst (load_data e self md)" "snd (load_data e self md)"]
    by auto
  then show ?thesis by (simp add: fetches_def count_list_0_iff)
qed

lemma data_changed:
  "metadata_data_ids (self_metadata self) \<noteq> self_original_metadata_data_ids self \<Longrightarrow>
   data e self =
     (fst (parse_data e self (self_metadata self)),
      (case fst (parse_data e self (self_metadata self)) of
         Inl ex \<Rightarrow> self\<lparr>self_original_metadata_data_ids := metadata_data_ids (self_metadata self)\<rparr>
       | Inr d \<Rightarrow> self\<lparr>self_original_metadata_data_ids := metadata_data_ids (self_metadata self),
                      self_data := d\<rparr>),
      snd (load_data e self (self_metadata self)))"
  by (simp add: data_def metadata_data_has_changed_def parse_data_eq split: sum.split kind.split)

lemma data_unchanged:
  "metadata_data_ids (self_metadata self) = self_original_metadata_data_ids self \<Longrightarrow>
   data e self = (Inr (self_data self), self, [])"
  by (simp add: data_def metadata_data_has_changed_def)

lemma data_in_sync:
  "data e self = (x, self', t) \<Longrightarrow>
   self_metadata self' = self_metadata self \<and> self_cls self' = self_cls self \<and>
   self_base_path self' = self_base_path self \<and>
   metadata_data_ids (self_metadata self') = self_original_metadata_data_ids self' \<and>
   (\<forall>v. x = Inr v \<longrightarrow> self_data self' = v) \<and>
   (\<forall>ex. x = Inl ex \<longrightarrow> self_data self' = self_data self)"
  by (cases "metadata_data_ids (self_metadata self) = self_original_metadata_data_ids self")
    (auto simp: data_changed data_unchanged split: sum.splits)

lemma metadata_data_ids_eq_iff:
  "metadata_data_ids a = metadata_data_ids b \<longleftrightarrow>
     py_id (md_data a) = py_id (md_data b) \<and> py_id (md_path a) = py_id (md_path b) \<and>
     py_id (md_url a) = py_id (md_url b)"
  by (simp add: metadata_data_ids_def)

lemma replaced_field_changes_ids:
  assumes "metadata_data_ids (self_metadata self) = self_original_metadata_data_ids self"
    and "metadata_data_ids md' \<noteq> metadata_data_ids (self_metadata self)"
  shows "fetches (snd (snd (data e (self\<lparr>self_metadata := md'\<rparr>)))) = 1"
proof -
  have "metadata_data_ids (self_metadata (self\<lparr>self_metadata := md'\<rparr>)) \<noteq>
      self_original_metadata_data_ids (self\<lparr>self_metadata := md'\<rparr>)"
    using assms by simp
  from data_changed [OF this, of e] show ?thesis
    by (simp add: load_data_fetches)
qed







lemma load_data_inline:
  "md_data md = Some (i, v) \<Longrightarrow> load_data e self md = (Inr (Some v), [Fetch])"
  by (auto simp: load_data_def py_get_def Let_def split: option.splits)

lemma data_stored:
  "data e (stored k md dbp d) = (Inr d, stored k md dbp d, [])"
  by (simp add: data_unchanged stored_def)

lemma data_plain_exn:
  assumes "self_cls self = ResourceK" and "data e self = (Inl ex, self', t)"
  shows "\<not> tabular_only ex"
proof (cases "metadata_data_ids (self_metadata self) = self_original_metadata_data_ids self")
  case True
  from data_unchanged [OF True, of e] assms(2) show ?thesis by simp
next
  case False
  from data_changed [OF False, of e] assms
  have "fst (load_data e self (self_metadata self)) = Inl ex"
    by (simp add: parse_data_eq)
  then have "load_data e self (self_metadata self) =
      (Inl ex, snd (load_data e self (self_metadata self)))"
    by (metis prod.collapse)
  then show ?thesis by (rule load_data_exn)
qed

lemma accesses_plain:
  "self_cls r = ResourceK \<Longrightarrow> Inl (ValueError m) \<notin> set (accesses steps r)"
proof (induction steps arbitrary: r)
  case Nil
  then show ?case by simp
next
  case (Cons step steps)
  obtain md e where step: "step = (md, e)" by (cases step)
  obtain x r' t where d: "data e (r\<lparr>self_metadata := md\<rparr>) = (x, r', t)"
    by (cases "data e (r\<lparr>self_metadata := md\<rparr>)")
  have k: "self_cls (r\<lparr>self_metadata := md\<rparr>) = ResourceK"
    using Cons.prems by simp
  have "self_cls r' = ResourceK"
    using data_in_sync [OF d] k by simp
  then have rest: "Inl (ValueError m) \<notin> set (accesses steps r')"
    by (rule Cons.IH)
  have "x \<noteq> Inl (ValueError m)"
    using data_plain_exn [OF k, of e "ValueError m" r' t] d by auto
  with rest show ?case
    by (simp add: step d)
qed

lemma load_Resource_no_ValueError: "fst (load ResourceK e md dbp) \<noteq> Inl (ValueError m)"
proof (cases "fst (fetch e md dbp)")
  case (Inl ex)
  then show ?thesis
    using fetch_exn [of e md dbp ex] by (auto simp: load_Resource)
next
  case (Inr d)
  show ?thesis
  proof (cases "tabular_value e d")
    case (Inl ex)
    then show ?thesis using Inr by (cases ex) (auto simp: load_Resource)
  next
    case Inr2: (Inr d1)
    then show ?thesis using Inr by (simp add: load_Resource)
  qed
qed





section \<open>The factory\<close>

text \<open>
  C1, as the code has it. \<^verbatim>\<open>Resource.load\<close> constructs a \<^verbatim>\<open>TabularResource\<close> first
  and returns it when that succeeds. Its handler is \<^verbatim>\<open>except ValueError\<close>: when the
  tabular construction fails with any \<^verbatim>\<open>ValueError\<close>, the plain constructor is run
  after it and its outcome is the outcome of \<^verbatim>\<open>load\<close>. Two such failures exist. After
  the type-mismatch error the plain constructor succeeds, so \<^verbatim>\<open>load\<close> returns a plain
  \<^verbatim>\<open>Resource\<close> if and only if the tabular construction failed with the type-mismatch
  error. After the \<^verbatim>\<open>UnicodeDecodeError\<close> of a file that cannot be decoded the plain
  constructor reads the file again and fails with the same error, which is what the caller
  gets. A failure that is no \<^verbatim>\<open>ValueError\<close>, such as the \<^verbatim>\<open>ResourceError\<close> of the
  fetch, is the failure of \<^verbatim>\<open>load\<close>, and nothing is done after it. For a descriptor
  whose path names a local file containing \<^verbatim>\<open>{"x": 1}\<close>, which \<^verbatim>\<open>json.loads\<close> reads as
  a dict, the tabular construction fails with the type-mismatch error and \<^verbatim>\<open>load\<close>
  returns a plain \<^verbatim>\<open>Resource\<close> whose \<^verbatim>\<open>data\<close> is that raw text.
\<close>

theorem load_falls_back_on_every_ValueError:
  "(\<forall>r t. init TabularResourceK e md dbp = (Inr r, t) \<longrightarrow>
       load ResourceK e md dbp = (Inr r, t)) \<and>
   (\<forall>ex t. init TabularResourceK e md dbp = (Inl ex, t) \<and> isinstance_ValueError ex \<longrightarrow>
       load ResourceK e md dbp =
         (fst (init ResourceK e md dbp), t @ snd (init ResourceK e md dbp))) \<and>
   (\<forall>ex t. init TabularResourceK e md dbp = (Inl ex, t) \<and> \<not> isinstance_ValueError ex \<longrightarrow>
       load ResourceK e md dbp = (Inl ex, t)) \<and>
   (\<forall>c t. init TabularResourceK e md dbp = (Inl (ResourceError c), t) \<longrightarrow>
       load ResourceK e md dbp = (Inl (ResourceError c), t)) \<and>
   (\<forall>m t. init TabularResourceK e md dbp = (Inl (ValueError m), t) \<longrightarrow>
      (\<exists>d. init ResourceK e md dbp = (Inr (stored ResourceK md dbp d), t) \<and>
         load ResourceK e md dbp = (Inr (stored ResourceK md dbp d), t @ t))) \<and>
   (\<forall>m t. init TabularResourceK e md dbp = (Inl (UnicodeDecodeError m), t) \<longrightarrow>
       init ResourceK e md dbp = (Inl (UnicodeDecodeError m), t) \<and>
       load ResourceK e md dbp = (Inl (UnicodeDecodeError m), t @ t)) \<and>
   ((\<exists>m t. init TabularResourceK e md dbp = (Inl (ValueError m), t)) \<longleftrightarrow>
    (\<exists>r t. load ResourceK e md dbp = (Inr r, t) \<and> self_cls r = ResourceK)) \<and>
   (path_names_local_file e md dbp f object_text \<and>
    json_loads e object_text = Parsed object_value \<longrightarrow>
      init TabularResourceK e md dbp =
        (Inl (mismatch object_value), [Fetch, IsFile f, IsFile f, Open f]) \<and>
      load ResourceK e md dbp =
        (Inr (stored ResourceK md dbp (Some (PStr object_text))),
         [Fetch, IsFile f, IsFile f, Open f] @ [Fetch, IsFile f, IsFile f, Open f]) \<and>
      data e (stored ResourceK md dbp (Some (PStr object_text))) =
        (Inr (Some (PStr object_text)), stored ResourceK md dbp (Some (PStr object_text)), []))"
proof (intro conjI allI impI)
  fix r t assume "init TabularResourceK e md dbp = (Inr r, t)"
  then show "load ResourceK e md dbp = (Inr r, t)" by (simp add: load_def)
next
  fix ex t
  assume "init TabularResourceK e md dbp = (Inl ex, t) \<and> isinstance_ValueError ex"
  then show "load ResourceK e md dbp =
      (fst (init ResourceK e md dbp), t @ snd (init ResourceK e md dbp))"
    by (simp add: load_def split: prod.split)
next
  fix ex t
  assume "init TabularResourceK e md dbp = (Inl ex, t) \<and> \<not> isinstance_ValueError ex"
  then show "load ResourceK e md dbp = (Inl ex, t)"
    by (simp add: load_def)
next
  fix c t
  assume "init TabularResourceK e md dbp = (Inl (ResourceError c), t)"
  then show "load ResourceK e md dbp = (Inl (ResourceError c), t)"
    by (simp add: load_def)
next
  fix m t assume a: "init TabularResourceK e md dbp = (Inl (ValueError m), t)"
  show "\<exists>d. init ResourceK e md dbp = (Inr (stored ResourceK md dbp d), t) \<and>
         load ResourceK e md dbp = (Inr (stored ResourceK md dbp d), t @ t)"
  proof (cases "fst (fetch e md dbp)")
    case (Inl ex)
    then show ?thesis
      using a fetch_exn [of e md dbp ex] by (auto simp: init_TabularResource)
  next
    case (Inr d)
    then show ?thesis
      using a by (auto simp: load_def init_Resource init_TabularResource split: sum.splits)
  qed
next
  fix m t assume a: "init TabularResourceK e md dbp = (Inl (UnicodeDecodeError m), t)"
  have b: "init ResourceK e md dbp = (Inl (UnicodeDecodeError m), t)"
  proof (cases "fst (fetch e md dbp)")
    case (Inl ex)
    then show ?thesis
      using a by (auto simp: init_Resource init_TabularResource)
  next
    case (Inr d)
    then show ?thesis
      using a tabular_value_exn [of e d "UnicodeDecodeError m"]
      by (auto simp: init_TabularResource split: sum.splits)
  qed
  then show "init ResourceK e md dbp = (Inl (UnicodeDecodeError m), t)" .
  from a b show "load ResourceK e md dbp = (Inl (UnicodeDecodeError m), t @ t)"
    by (simp add: load_def)
next
  show "(\<exists>m t. init TabularResourceK e md dbp = (Inl (ValueError m), t)) \<longleftrightarrow>
    (\<exists>r t. load ResourceK e md dbp = (Inr r, t) \<and> self_cls r = ResourceK)"
  proof (cases "fst (fetch e md dbp)")
    case (Inl ex)
    then show ?thesis
      using fetch_exn [of e md dbp ex]
      by (auto simp: load_Resource init_TabularResource)
  next
    case (Inr d)
    show ?thesis
    proof (cases "tabular_value e d")
      case (Inl ex)
      then show ?thesis
        using Inr tabular_value_exn [of e d ex]
        by (cases ex) (auto simp: load_Resource init_TabularResource stored_def)
    next
      case Inr2: (Inr d1)
      then show ?thesis
        using Inr by (auto simp: load_Resource init_TabularResource stored_def)
    qed
  qed
next
  assume a: "path_names_local_file e md dbp f object_text \<and>
    json_loads e object_text = Parsed object_value"
  then have p: "path_names_local_file e md dbp f object_text"
    by simp
  have f: "fetch e md dbp = (Inr (Some (PStr object_text)), [Fetch, IsFile f, IsFile f, Open f])"
    by (rule fetch_local_file [OF p])
  have v: "tabular_value e (Some (PStr object_text)) = Inl (mismatch object_value)"
    using a by (simp add: tabular_value_def raise_if_isnt_tabular_data_eq object_value_def)
  show "init TabularResourceK e md dbp =
      (Inl (mismatch object_value), [Fetch, IsFile f, IsFile f, Open f])"
    by (simp add: init_TabularResource f v)
  show "load ResourceK e md dbp =
        (Inr (stored ResourceK md dbp (Some (PStr object_text))),
         [Fetch, IsFile f, IsFile f, Open f] @ [Fetch, IsFile f, IsFile f, Open f])"
    by (simp add: load_Resource f v mismatch_def)
  show "data e (stored ResourceK md dbp (Some (PStr object_text))) =
        (Inr (Some (PStr object_text)), stored ResourceK md dbp (Some (PStr object_text)), [])"
    by (rule data_stored)
qed

text \<open>
  The theorem at four descriptors of the concrete world: a file holding a JSON object
  (fallback to the plain class), a file holding a JSON array (tabular), a path that is a
  URL whose request fails (the fetch error comes out of \<^verbatim>\<open>load\<close>, with one fetch made),
  and a file that cannot be decoded (the plain constructor is run and fails again).
\<close>

theorem load_falls_back_on_every_ValueError_witness:
  "load ResourceK demo_env (path_descriptor 1 ''object.json'') None =
     (Inr (stored ResourceK (path_descriptor 1 ''object.json'') None (Some (PStr object_text))),
      [Fetch, IsFile ''object.json'', IsFile ''object.json'', Open ''object.json''] @
      [Fetch, IsFile ''object.json'', IsFile ''object.json'', Open ''object.json'']) \<and>
   load ResourceK demo_env (path_descriptor 1 ''array.json'') None =
     (Inr (stored TabularResourceK (path_descriptor 1 ''array.json'') None array_value),
      [Fetch, IsFile ''array.json'', IsFile ''array.json'', Open ''array.json'']) \<and>
   load ResourceK demo_env (path_descriptor 1 ''http://example.com/lost'') None =
     (Inl (ResourceError (RequestException ''no answer from http://example.com/lost'')),
      [Fetch, IsFile ''http://example.com/lost'', Get ''http://example.com/lost'']) \<and>
   load ResourceK demo_env (path_descriptor 1 ''latin1.csv'') None =
     (Inl (UnicodeDecodeError ''invalid start byte''),
      [Fetch, IsFile ''latin1.csv'', IsFile ''latin1.csv'', Open ''latin1.csv''] @
      [Fetch, IsFile ''latin1.csv'', IsFile ''latin1.csv'', Open ''latin1.csv''])"
proof -
  have h1: "path_names_local_file demo_env (path_descriptor 1 ''object.json'') None
      ''object.json'' object_text"
    by code_simp
  have h2: "json_loads demo_env object_text = Parsed object_value"
    by code_simp
  have h3: "init TabularResourceK demo_env (path_descriptor 1 ''array.json'') None =
     (Inr (stored TabularResourceK (path_descriptor 1 ''array.json'') None array_value),
      [Fetch, IsFile ''array.json'', IsFile ''array.json'', Open ''array.json''])"
    by code_simp
  have h4: "init TabularResourceK demo_env (path_descriptor 1 ''http://example.com/lost'') None =
     (Inl (ResourceError (RequestException ''no answer from http://example.com/lost'')),
      [Fetch, IsFile ''http://example.com/lost'', Get ''http://example.com/lost''])"
    by code_simp
  have h5: "init TabularResourceK demo_env (path_descriptor 1 ''latin1.csv'') None =
     (Inl (UnicodeDecodeError ''invalid start byte''),
      [Fetch, IsFile ''latin1.csv'', IsFile ''latin1.csv'', Open ''latin1.csv''])"
    by code_simp
  note a = load_falls_back_on_every_ValueError
    [of demo_env "path_descriptor 1 ''object.json''" None "''object.json''"]
  note b = load_falls_back_on_every_ValueError
    [of demo_env "path_descriptor 1 ''array.json''" None]
  note c = load_falls_back_on_every_ValueError
    [of demo_env "path_descriptor 1 ''http://example.com/lost''" None]
  note d = load_falls_back_on_every_ValueError
    [of demo_env "path_descriptor 1 ''latin1.csv''" None]
  have g1: "load ResourceK demo_env (path_descriptor 1 ''object.json'') None =
     (Inr (stored ResourceK (path_descriptor 1 ''object.json'') None (Some (PStr object_text))),
      [Fetch, IsFile ''object.json'', IsFile ''object.json'', Open ''object.json''] @
      [Fetch, IsFile ''object.json'', IsFile ''object.json'', Open ''object.json''])"
    using a h1 h2 by blast
  have g2: "load ResourceK demo_env (path_descriptor 1 ''array.json'') None =
     (Inr (stored TabularResourceK (path_descriptor 1 ''array.json'') None array_value),
      [Fetch, IsFile ''array.json'', IsFile ''array.json'', Open ''array.json''])"
    using b h3 by blast
  have g3: "load ResourceK demo_env (path_descriptor 1 ''http://example.com/lost'') None =
     (Inl (ResourceError (RequestException ''no answer from http://example.com/lost'')),
      [Fetch, IsFile ''http://example.com/lost'', Get ''http://example.com/lost''])"
    using c h4 by blast
  have g4: "load ResourceK demo_env (path_descriptor 1 ''latin1.csv'') None =
     (Inl (UnicodeDecodeError ''invalid start byte''),
      [Fetch, IsFile ''latin1.csv'', IsFile ''latin1.csv'', Open ''latin1.csv''] @
      [Fetch, IsFile ''latin1.csv'', IsFile ''latin1.csv'', Open ''latin1.csv''])"
    using d h5 by blast
  show ?thesis using g1 g2 g3 g4 by blast
qed

text \<open>
  C1 as stated fails at the file that cannot be decoded. The tabular construction fails
  with \<^verbatim>\<open>UnicodeDecodeError\<close>, which is not the type-mismatch error, and yet \<^verbatim>\<open>load\<close>
  runs the plain constructor: the file is opened a second time and the pipeline run a
  second time before the caller sees a failure.
\<close>

theorem load_runs_the_fallback_on_a_decode_error_counterexample:
  "init TabularResourceK demo_env (path_descriptor 1 ''latin1.csv'') None =
     (Inl (UnicodeDecodeError ''invalid start byte''),
      [Fetch, IsFile ''latin1.csv'', IsFile ''latin1.csv'', Open ''latin1.csv'']) \<and>
   load ResourceK demo_env (path_descriptor 1 ''latin1.csv'') None =
     (Inl (UnicodeDecodeError ''invalid start byte''),
      [Fetch, IsFile ''latin1.csv'', IsFile ''latin1.csv'', Open ''latin1.csv'',
       Fetch, IsFile ''latin1.csv'', IsFile ''latin1.csv'', Open ''latin1.csv'']) \<and>
   fetches (snd (load ResourceK demo_env (path_descriptor 1 ''latin1.csv'') None)) = 2 \<and>
   file_reads (snd (load ResourceK demo_env (path_descriptor 1 ''latin1.csv'') None)) = 2"
  by code_simp

section \<open>The tabular interpretation\<close>

text \<open>
  C2. When the fetched content is text, \<^verbatim>\<open>TabularResource._parse_data\<close> gives it to
  \<^verbatim>\<open>json.loads\<close> first; when that returns a value the value is used as it is (it is
  then only checked to be a list or tuple) and the CSV reader has no part in the result.
  Only when \<^verbatim>\<open>json.loads\<close> raises are the rows of the CSV reader used. So a file
  containing \<^verbatim>\<open>[1,2,3]\<close> yields the list of the three numbers, whatever the CSV
  reader would say, and a file containing the two lines \<^verbatim>\<open>a,b\<close> and \<^verbatim>\<open>1,2\<close>, which
  the CSV reader reads as one row with the first line as field names, yields that row.
\<close>

theorem tabular_json_before_csv:
  "(\<forall>s v self' t. Resource_parse_data e self md = (Inr (Some (PStr s)), self', t) \<and>
        json_loads e s = Parsed v \<longrightarrow>
      TabularResource_parse_data e self md =
        (case raise_if_isnt_tabular_data v of Inl ex \<Rightarrow> Inl ex | Inr u \<Rightarrow> Inr v, self', t) \<and>
      TabularResource_parse_data (e\<lparr>csv_dictreader := c\<rparr>) self md =
        TabularResource_parse_data e self md) \<and>
   (\<forall>s rows self' t. Resource_parse_data e self md = (Inr (Some (PStr s)), self', t) \<and>
        json_loads e s = JSONRaises \<and> csv_dictreader e s = Rows rows \<and> rows \<noteq> [] \<longrightarrow>
      TabularResource_parse_data e self md = (Inr (Some (PList rows)), self', t)) \<and>
   (path_names_local_file e md dbp f array_text \<and>
    json_loads e array_text = Parsed array_value \<longrightarrow>
      fst (init TabularResourceK e md dbp) = Inr (stored TabularResourceK md dbp array_value) \<and>
      fst (init TabularResourceK (e\<lparr>csv_dictreader := c\<rparr>) md dbp) =
        Inr (stored TabularResourceK md dbp array_value)) \<and>
   (path_names_local_file e md dbp f csv_text \<and>
    json_loads e csv_text = JSONRaises \<and> csv_dictreader e csv_text = Rows csv_rows \<longrightarrow>
      fst (init TabularResourceK e md dbp) =
        Inr (stored TabularResourceK md dbp (Some (PList csv_rows))))"
proof (intro conjI allI impI)
  fix s v self' t
  assume a: "Resource_parse_data e self md = (Inr (Some (PStr s)), self', t) \<and>
    json_loads e s = Parsed v"
  then show "TabularResource_parse_data e self md =
        (case raise_if_isnt_tabular_data v of Inl ex \<Rightarrow> Inl ex | Inr u \<Rightarrow> Inr v, self', t)"
    by (simp add: TabularResource_parse_data_def split: sum.split)
  from a show "TabularResource_parse_data (e\<lparr>csv_dictreader := c\<rparr>) self md =
        TabularResource_parse_data e self md"
    by (simp add: TabularResource_parse_data_eq Resource_parse_data_eq load_data_env_frame
        tabular_value_def)
next
  fix s rows self' t
  assume "Resource_parse_data e self md = (Inr (Some (PStr s)), self', t) \<and>
        json_loads e s = JSONRaises \<and> csv_dictreader e s = Rows rows \<and> rows \<noteq> []"
  then show "TabularResource_parse_data e self md = (Inr (Some (PList rows)), self', t)"
    by (simp add: TabularResource_parse_data_def raise_if_isnt_tabular_data_eq)
next
  assume a: "path_names_local_file e md dbp f array_text \<and>
    json_loads e array_text = Parsed array_value"
  then have f: "fetch e md dbp = (Inr (Some (PStr array_text)), [Fetch, IsFile f, IsFile f, Open f])"
    by (simp add: fetch_local_file)
  have v: "tabular_value e (Some (PStr array_text)) = Inr array_value"
    using a by (simp add: tabular_value_def raise_if_isnt_tabular_data_eq array_value_def)
  show "fst (init TabularResourceK e md dbp) = Inr (stored TabularResourceK md dbp array_value)"
    by (simp add: init_TabularResource f v)
  have f': "fetch (e\<lparr>csv_dictreader := c\<rparr>) md dbp = fetch e md dbp"
    by (simp add: fetch_def load_data_env_frame)
  have v': "tabular_value (e\<lparr>csv_dictreader := c\<rparr>) (Some (PStr array_text)) = Inr array_value"
    using a by (simp add: tabular_value_def raise_if_isnt_tabular_data_eq array_value_def)
  show "fst (init TabularResourceK (e\<lparr>csv_dictreader := c\<rparr>) md dbp) =
        Inr (stored TabularResourceK md dbp array_value)"
    by (simp add: init_TabularResource f f' v')
next
  assume a: "path_names_local_file e md dbp f csv_text \<and>
    json_loads e csv_text = JSONRaises \<and> csv_dictreader e csv_text = Rows csv_rows"
  then have f: "fetch e md dbp = (Inr (Some (PStr csv_text)), [Fetch, IsFile f, IsFile f, Open f])"
    by (simp add: fetch_local_file)
  have v: "tabular_value e (Some (PStr csv_text)) = Inr (Some (PList csv_rows))"
    using a by (simp add: tabular_value_def raise_if_isnt_tabular_data_eq csv_rows_def)
  show "fst (init TabularResourceK e md dbp) =
        Inr (stored TabularResourceK md dbp (Some (PList csv_rows)))"
    by (simp add: init_TabularResource f v)
qed

text \<open>
  The theorem in the concrete world, at the file holding the JSON array and at the file
  holding the two CSV lines; the CSV reader put in place of the real one raises on every
  text, and the array is read all the same.
\<close>

theorem tabular_json_before_csv_witness:
  "fst (init TabularResourceK demo_env (path_descriptor 1 ''array.json'') None) =
     Inr (stored TabularResourceK (path_descriptor 1 ''array.json'') None array_value) \<and>
   fst (init TabularResourceK (demo_env\<lparr>csv_dictreader := (\<lambda>s. CsvRaises ''unused'')\<rparr>)
          (path_descriptor 1 ''array.json'') None) =
     Inr (stored TabularResourceK (path_descriptor 1 ''array.json'') None array_value) \<and>
   fst (init TabularResourceK demo_env (path_descriptor 1 ''data.csv'') None) =
     Inr (stored TabularResourceK (path_descriptor 1 ''data.csv'') None (Some (PList csv_rows))) \<and>
   TabularResource_parse_data demo_env
       (stored TabularResourceK (path_descriptor 1 ''array.json'') None None)
       (path_descriptor 1 ''array.json'') =
     (Inr array_value, stored TabularResourceK (path_descriptor 1 ''array.json'') None None,
      [Fetch, IsFile ''array.json'', IsFile ''array.json'', Open ''array.json'']) \<and>
   TabularResource_parse_data demo_env
       (stored TabularResourceK (path_descriptor 1 ''data.csv'') None None)
       (path_descriptor 1 ''data.csv'') =
     (Inr (Some (PList csv_rows)), stored TabularResourceK (path_descriptor 1 ''data.csv'') None None,
      [Fetch, IsFile ''data.csv'', IsFile ''data.csv'', Open ''data.csv''])"
proof -
  have a1: "path_names_local_file demo_env (path_descriptor 1 ''array.json'') None
      ''array.json'' array_text"
    by code_simp
  have a2: "json_loads demo_env array_text = Parsed array_value"
    by code_simp
  have b1: "path_names_local_file demo_env (path_descriptor 1 ''data.csv'') None
      ''data.csv'' csv_text"
    by code_simp
  have b2: "json_loads demo_env csv_text = JSONRaises"
    by code_simp
  have b3: "csv_dictreader demo_env csv_text = Rows csv_rows"
    by code_simp
  have c1: "Resource_parse_data demo_env
       (stored TabularResourceK (path_descriptor 1 ''array.json'') None None)
       (path_descriptor 1 ''array.json'') =
     (Inr (Some (PStr array_text)),
      stored TabularResourceK (path_descriptor 1 ''array.json'') None None,
      [Fetch, IsFile ''array.json'', IsFile ''array.json'', Open ''array.json''])"
    by code_simp
  have c2: "raise_if_isnt_tabular_data array_value = Inr ()"
    by code_simp
  have d1: "Resource_parse_data demo_env
       (stored TabularResourceK (path_descriptor 1 ''data.csv'') None None)
       (path_descriptor 1 ''data.csv'') =
     (Inr (Some (PStr csv_text)),
      stored TabularResourceK (path_descriptor 1 ''data.csv'') None None,
      [Fetch, IsFile ''data.csv'', IsFile ''data.csv'', Open ''data.csv''])"
    by code_simp
  have d2: "csv_rows \<noteq> []"
    by code_simp
  note a = tabular_json_before_csv
    [of demo_env "stored TabularResourceK (path_descriptor 1 ''array.json'') None None"
      "path_descriptor 1 ''array.json''" "\<lambda>s. CsvRaises ''unused''" None "''array.json''"]
  note b = tabular_json_before_csv
    [of demo_env "stored TabularResourceK (path_descriptor 1 ''data.csv'') None None"
      "path_descriptor 1 ''data.csv''" "\<lambda>s. CsvRaises ''unused''" None "''data.csv''"]
  have g1: "fst (init TabularResourceK demo_env (path_descriptor 1 ''array.json'') None) =
     Inr (stored TabularResourceK (path_descriptor 1 ''array.json'') None array_value) \<and>
   fst (init TabularResourceK (demo_env\<lparr>csv_dictreader := (\<lambda>s. CsvRaises ''unused'')\<rparr>)
          (path_descriptor 1 ''array.json'') None) =
     Inr (stored TabularResourceK (path_descriptor 1 ''array.json'') None array_value)"
    using a a1 a2 by blast
  have g2: "fst (init TabularResourceK demo_env (path_descriptor 1 ''data.csv'') None) =
     Inr (stored TabularResourceK (path_descriptor 1 ''data.csv'') None (Some (PList csv_rows)))"
    using b b1 b2 b3 by blast
  have "TabularResource_parse_data demo_env
       (stored TabularResourceK (path_descriptor 1 ''array.json'') None None)
       (path_descriptor 1 ''array.json'') =
     (case raise_if_isnt_tabular_data array_value of Inl ex \<Rightarrow> Inl ex | Inr u \<Rightarrow> Inr array_value,
      stored TabularResourceK (path_descriptor 1 ''array.json'') None None,
      [Fetch, IsFile ''array.json'', IsFile ''array.json'', Open ''array.json''])"
    using a c1 a2 by blast
  then have g3: "TabularResource_parse_data demo_env
       (stored TabularResourceK (path_descriptor 1 ''array.json'') None None)
       (path_descriptor 1 ''array.json'') =
     (Inr array_value, stored TabularResourceK (path_descriptor 1 ''array.json'') None None,
      [Fetch, IsFile ''array.json'', IsFile ''array.json'', Open ''array.json''])"
    by (simp add: c2)
  have g4: "TabularResource_parse_data demo_env
       (stored TabularResourceK (path_descriptor 1 ''data.csv'') None None)
       (path_descriptor 1 ''data.csv'') =
     (Inr (Some (PList csv_rows)), stored TabularResourceK (path_descriptor 1 ''data.csv'') None None,
      [Fetch, IsFile ''data.csv'', IsFile ''data.csv'', Open ''data.csv''])"
    using b d1 b2 b3 d2 by blast
  show ?thesis using g1 g2 g3 g4 by blast
qed

section \<open>The cache of the property data\<close>

text \<open>
  What the comparison of \<^verbatim>\<open>_metadata_data_has_changed\<close> decides. The snapshot holds
  the numbers \<^verbatim>\<open>id()\<close> returned, not the objects. While the three numbers of the dict
  are those of the snapshot, \<^verbatim>\<open>data\<close> returns the cached content, does nothing else
  and leaves the instance as it is. When they are not, the access runs the fetch pipeline,
  once, and its result is the one of \<^verbatim>\<open>_parse_data\<close>. On an instance whose snapshot
  is current (as it is after construction and after every access), an object put under one
  of the three keys whose number differs from the number of the object it replaces makes
  the next access fetch again, whatever its value.
\<close>

theorem data_cache_keyed_on_identity:
  "(metadata_data_ids (self_metadata self) = self_original_metadata_data_ids self \<longrightarrow>
      data e self = (Inr (self_data self), self, [])) \<and>
   (metadata_data_ids (self_metadata self) \<noteq> self_original_metadata_data_ids self \<longrightarrow>
      fetches (snd (snd (data e self))) = 1 \<and>
      fst (data e self) = fst (parse_data e self (self_metadata self))) \<and>
   (metadata_data_ids (self_metadata self) = self_original_metadata_data_ids self \<and>
    py_id x \<noteq> py_id (md_data (self_metadata self)) \<longrightarrow>
      fetches (snd (snd (data e (self\<lparr>self_metadata := (self_metadata self)\<lparr>md_data := x\<rparr>\<rparr>)))) = 1) \<and>
   (metadata_data_ids (self_metadata self) = self_original_metadata_data_ids self \<and>
    py_id y \<noteq> py_id (md_path (self_metadata self)) \<longrightarrow>
      fetches (snd (snd (data e (self\<lparr>self_metadata := (self_metadata self)\<lparr>md_path := y\<rparr>\<rparr>)))) = 1) \<and>
   (metadata_data_ids (self_metadata self) = self_original_metadata_data_ids self \<and>
    py_id z \<noteq> py_id (md_url (self_metadata self)) \<longrightarrow>
      fetches (snd (snd (data e (self\<lparr>self_metadata := (self_metadata self)\<lparr>md_url := z\<rparr>\<rparr>)))) = 1)"
proof (intro conjI impI)
  assume "metadata_data_ids (self_metadata self) = self_original_metadata_data_ids self"
  then show "data e self = (Inr (self_data self), self, [])"
    by (rule data_unchanged)
next
  assume a: "metadata_data_ids (self_metadata self) \<noteq> self_original_metadata_data_ids self"
  show "fetches (snd (snd (data e self))) = 1"
    by (simp add: data_changed [OF a] load_data_fetches)
  show "fst (data e self) = fst (parse_data e self (self_metadata self))"
    by (simp add: data_changed [OF a])
next
  assume a: "metadata_data_ids (self_metadata self) = self_original_metadata_data_ids self \<and>
    py_id x \<noteq> py_id (md_data (self_metadata self))"
  then have a1: "metadata_data_ids (self_metadata self) = self_original_metadata_data_ids self"
    and a2: "py_id x \<noteq> py_id (md_data (self_metadata self))"
    by simp_all
  have "metadata_data_ids ((self_metadata self)\<lparr>md_data := x\<rparr>) \<noteq>
      metadata_data_ids (self_metadata self)"
    using a2 by (simp add: metadata_data_ids_eq_iff)
  then show "fetches (snd (snd (data e
      (self\<lparr>self_metadata := (self_metadata self)\<lparr>md_data := x\<rparr>\<rparr>)))) = 1"
    by (rule replaced_field_changes_ids [OF a1])
next
  assume a: "metadata_data_ids (self_metadata self) = self_original_metadata_data_ids self \<and>
    py_id y \<noteq> py_id (md_path (self_metadata self))"
  then have a1: "metadata_data_ids (self_metadata self) = self_original_metadata_data_ids self"
    and a2: "py_id y \<noteq> py_id (md_path (self_metadata self))"
    by simp_all
  have "metadata_data_ids ((self_metadata self)\<lparr>md_path := y\<rparr>) \<noteq>
      metadata_data_ids (self_metadata self)"
    using a2 by (simp add: metadata_data_ids_eq_iff)
  then show "fetches (snd (snd (data e
      (self\<lparr>self_metadata := (self_metadata self)\<lparr>md_path := y\<rparr>\<rparr>)))) = 1"
    by (rule replaced_field_changes_ids [OF a1])
next
  assume a: "metadata_data_ids (self_metadata self) = self_original_metadata_data_ids self \<and>
    py_id z \<noteq> py_id (md_url (self_metadata self))"
  then have a1: "metadata_data_ids (self_metadata self) = self_original_metadata_data_ids self"
    and a2: "py_id z \<noteq> py_id (md_url (self_metadata self))"
    by simp_all
  have "metadata_data_ids ((self_metadata self)\<lparr>md_url := z\<rparr>) \<noteq>
      metadata_data_ids (self_metadata self)"
    using a2 by (simp add: metadata_data_ids_eq_iff)
  then show "fetches (snd (snd (data e
      (self\<lparr>self_metadata := (self_metadata self)\<lparr>md_url := z\<rparr>\<rparr>)))) = 1"
    by (rule replaced_field_changes_ids [OF a1])
qed


text \<open>
  This at the instance \<^verbatim>\<open>load\<close> returns for the CSV file of the concrete world:
  the access is answered from the cache, and after the path is replaced by a new string
  with the same text, or a new object is put under \<^verbatim>\<open>data\<close> or \<^verbatim>\<open>url\<close>, the next
  access fetches.
\<close>

theorem data_cache_keyed_on_identity_witness:
  "fst (load ResourceK demo_env (path_descriptor 1 ''data.csv'') None) =
     Inr (stored TabularResourceK (path_descriptor 1 ''data.csv'') None (Some (PList csv_rows))) \<and>
   data demo_env
       (stored TabularResourceK (path_descriptor 1 ''data.csv'') None (Some (PList csv_rows))) =
     (Inr (Some (PList csv_rows)),
      stored TabularResourceK (path_descriptor 1 ''data.csv'') None (Some (PList csv_rows)), []) \<and>
   fetches (snd (snd (data demo_env
       (stored TabularResourceK (path_descriptor 1 ''data.csv'') None (Some (PList csv_rows))
          \<lparr>self_metadata := (path_descriptor 1 ''data.csv'')\<lparr>md_path := Some (2, ''data.csv'')\<rparr>\<rparr>)))) = 1 \<and>
   fetches (snd (snd (data demo_env
       (stored TabularResourceK (path_descriptor 1 ''data.csv'') None (Some (PList csv_rows))
          \<lparr>self_metadata := (path_descriptor 1 ''data.csv'')\<lparr>md_data := Some (3, PList [])\<rparr>\<rparr>)))) = 1 \<and>
   fetches (snd (snd (data demo_env
       (stored TabularResourceK (path_descriptor 1 ''data.csv'') None (Some (PList csv_rows))
          \<lparr>self_metadata := (path_descriptor 1 ''data.csv'')\<lparr>md_url := Some (4, object_url)\<rparr>\<rparr>)))) = 1"
proof -
  let ?r = "stored TabularResourceK (path_descriptor 1 ''data.csv'') None (Some (PList csv_rows))"
  have l: "fst (load ResourceK demo_env (path_descriptor 1 ''data.csv'') None) = Inr ?r"
    by code_simp
  have m: "self_metadata ?r = path_descriptor 1 ''data.csv''" and d: "self_data ?r = Some (PList csv_rows)"
    by (simp_all add: stored_def)
  have s: "metadata_data_ids (self_metadata ?r) = self_original_metadata_data_ids ?r"
    by (simp add: stored_def)
  have x: "py_id (Some (3::nat, PList [])) \<noteq> py_id (md_data (self_metadata ?r))"
    by (simp add: stored_def path_descriptor_def py_id_def)
  have y: "py_id (Some (2::nat, ''data.csv'')) \<noteq> py_id (md_path (self_metadata ?r))"
    by (simp add: stored_def path_descriptor_def py_id_def)
  have z: "py_id (Some (4::nat, object_url)) \<noteq> py_id (md_url (self_metadata ?r))"
    by (simp add: stored_def path_descriptor_def py_id_def)
  note t = data_cache_keyed_on_identity
    [of ?r demo_env "Some (3, PList [])" "Some (2, ''data.csv'')" "Some (4, object_url)"]
  show ?thesis
    using t s x y z l unfolding m d by blast
qed

text \<open>
  C3. The claim is that the next access of \<^verbatim>\<open>data\<close> fetches again whenever the
  caller has replaced the object under \<^verbatim>\<open>data\<close>, \<^verbatim>\<open>path\<close> or \<^verbatim>\<open>url\<close> by a new
  one. The code misses a case. The snapshot keeps numbers and holds no reference, so the
  object it stands for can be released, and a new object can then be given the released
  number. Here the path of the instance made for the CSV file (object 1) is replaced by
  another string (object 2) and, with no access in between, by a third, new string, which
  names the JSON file and has been given the number 1. The three numbers are those of the
  snapshot: the access does not fetch and returns the rows of the CSV file. The same string
  under a number the snapshot does not hold is fetched and yields the array.
\<close>

theorem replaced_path_with_reused_id_is_not_fetched:
  "fst (load ResourceK demo_env (path_descriptor 1 ''data.csv'') None) =
     Inr (stored TabularResourceK (path_descriptor 1 ''data.csv'') None (Some (PList csv_rows))) \<and>
   data demo_env
       (stored TabularResourceK (path_descriptor 1 ''data.csv'') None (Some (PList csv_rows))
          \<lparr>self_metadata := path_descriptor 2 ''header.csv''\<rparr>
          \<lparr>self_metadata := path_descriptor 1 ''array.json''\<rparr>) =
     (Inr (Some (PList csv_rows)),
      stored TabularResourceK (path_descriptor 1 ''array.json'') None (Some (PList csv_rows)),
      []) \<and>
   data demo_env
       (stored TabularResourceK (path_descriptor 1 ''data.csv'') None (Some (PList csv_rows))
          \<lparr>self_metadata := path_descriptor 2 ''header.csv''\<rparr>
          \<lparr>self_metadata := path_descriptor 3 ''array.json''\<rparr>) =
     (Inr array_value,
      stored TabularResourceK (path_descriptor 3 ''array.json'') None array_value,
      [Fetch, IsFile ''array.json'', IsFile ''array.json'', Open ''array.json''])"
  by code_simp

section \<open>Consecutive accesses\<close>

text \<open>
  C6. Two accesses of \<^verbatim>\<open>data\<close> in a row, with nothing replaced in the dict between
  them, run the fetch pipeline at most once in total: the second access does nothing and
  leaves the instance as it is. When the first access returned a value, the second returns
  the same value.
\<close>

theorem consecutive_accesses_fetch_at_most_once:
  "data e1 self = (x1, self1, t1) \<and> data e2 self1 = (x2, self2, t2) \<longrightarrow>
     fetches (t1 @ t2) \<le> 1 \<and> t2 = [] \<and> self2 = self1 \<and> (\<forall>v. x1 = Inr v \<longrightarrow> x2 = Inr v)"
proof
  assume a: "data e1 self = (x1, self1, t1) \<and> data e2 self1 = (x2, self2, t2)"
  then have b: "data e1 self = (x1, self1, t1)" and c: "data e2 self1 = (x2, self2, t2)"
    by simp_all
  have s: "metadata_data_ids (self_metadata self1) = self_original_metadata_data_ids self1"
    and v: "\<forall>v. x1 = Inr v \<longrightarrow> self_data self1 = v"
    using data_in_sync [OF b] by blast+
  have "(x2, self2, t2) = (Inr (self_data self1), self1, [])"
    using c [symmetric] data_unchanged [OF s, of e2] by (rule trans)
  then have d2: "x2 = Inr (self_data self1)" "self2 = self1" "t2 = []"
    by simp_all
  have "fetches t1 \<le> 1"
  proof (cases "metadata_data_ids (self_metadata self) = self_original_metadata_data_ids self")
    case True
    have "(x1, self1, t1) = (Inr (self_data self), self, [])"
      using b [symmetric] data_unchanged [OF True, of e1] by (rule trans)
    then show ?thesis by (simp add: fetches_def)
  next
    case False
    have "t1 = snd (snd (data e1 self))"
      by (simp add: b)
    then show ?thesis by (simp add: data_changed [OF False] load_data_fetches)
  qed
  then show "fetches (t1 @ t2) \<le> 1 \<and> t2 = [] \<and> self2 = self1 \<and> (\<forall>v. x1 = Inr v \<longrightarrow> x2 = Inr v)"
    using d2 v by simp
qed

text \<open>
  The theorem at an instance whose path was just replaced: the first access fetches, the
  second does not, and both return the same rows.
\<close>

theorem consecutive_accesses_fetch_at_most_once_witness:
  "data demo_env
       (stored TabularResourceK (path_descriptor 1 ''data.csv'') None (Some (PList csv_rows))
          \<lparr>self_metadata := path_descriptor 2 ''data.csv''\<rparr>) =
     (Inr (Some (PList csv_rows)),
      stored TabularResourceK (path_descriptor 2 ''data.csv'') None (Some (PList csv_rows)),
      [Fetch, IsFile ''data.csv'', IsFile ''data.csv'', Open ''data.csv'']) \<and>
   data demo_env
       (stored TabularResourceK (path_descriptor 2 ''data.csv'') None (Some (PList csv_rows))) =
     (Inr (Some (PList csv_rows)),
      stored TabularResourceK (path_descriptor 2 ''data.csv'') None (Some (PList csv_rows)), []) \<and>
   fetches ([Fetch, IsFile ''data.csv'', IsFile ''data.csv'', Open ''data.csv''] @ []) \<le> 1"
proof -
  have a: "data demo_env
       (stored TabularResourceK (path_descriptor 1 ''data.csv'') None (Some (PList csv_rows))
          \<lparr>self_metadata := path_descriptor 2 ''data.csv''\<rparr>) =
     (Inr (Some (PList csv_rows)),
      stored TabularResourceK (path_descriptor 2 ''data.csv'') None (Some (PList csv_rows)),
      [Fetch, IsFile ''data.csv'', IsFile ''data.csv'', Open ''data.csv''])"
    by code_simp
  have b: "data demo_env
       (stored TabularResourceK (path_descriptor 2 ''data.csv'') None (Some (PList csv_rows))) =
     (Inr (Some (PList csv_rows)),
      stored TabularResourceK (path_descriptor 2 ''data.csv'') None (Some (PList csv_rows)), [])"
    by code_simp
  from consecutive_accesses_fetch_at_most_once
    [of demo_env _ "Inr (Some (PList csv_rows))" _ _ demo_env "Inr (Some (PList csv_rows))" _ "[]"]
    a b
  show ?thesis by blast
qed

section \<open>Inline data\<close>

text \<open>
  C7. When the descriptor holds inline data, \<^verbatim>\<open>_load_data\<close> returns that value as it
  is and touches neither the file system nor the network, whatever \<^verbatim>\<open>path\<close> and
  \<^verbatim>\<open>url\<close> hold: the inline branch is consulted first. For a structured value, that is
  one that is no string, \<^verbatim>\<open>Resource.load\<close> returns an instance whose \<^verbatim>\<open>data\<close> is
  the value, having run the fetch pipeline only (no \<^verbatim>\<open>isfile\<close>, no \<^verbatim>\<open>open\<close>, no
  GET), and reading \<^verbatim>\<open>data\<close> returns the value from the cache.
\<close>

theorem inline_data_is_returned_verbatim:
  "(md_data md = Some (i, v) \<longrightarrow>
      load_data e self md = (Inr (Some v), [Fetch]) \<and>
      init ResourceK e md dbp = (Inr (stored ResourceK md dbp (Some v)), [Fetch])) \<and>
   (md_data md = Some (i, v) \<and> (\<forall>s. v \<noteq> PStr s) \<longrightarrow>
      (\<exists>r t. load ResourceK e md dbp = (Inr r, t) \<and> self_metadata r = md \<and>
         self_data r = Some v \<and> set t \<subseteq> {Fetch} \<and> file_reads t = 0 \<and> http_gets t = 0 \<and>
         data e' r = (Inr (Some v), r, [])))"
proof (intro conjI impI)
  assume a: "md_data md = Some (i, v)"
  then show "load_data e self md = (Inr (Some v), [Fetch])"
    by (rule load_data_inline)
  from a show "init ResourceK e md dbp = (Inr (stored ResourceK md dbp (Some v)), [Fetch])"
    by (simp add: init_Resource fetch_def load_data_inline)
next
  assume a: "md_data md = Some (i, v) \<and> (\<forall>s. v \<noteq> PStr s)"
  then have f: "fetch e md dbp = (Inr (Some v), [Fetch])"
    by (simp add: fetch_def load_data_inline)
  have tv: "tabular_value e (Some v) =
      (if type_name (Some v) = ''list'' \<or> type_name (Some v) = ''tuple'' then Inr (Some v)
       else Inl (mismatch (Some v)))"
    using a by (cases v) (simp_all add: tabular_value_def raise_if_isnt_tabular_data_eq)
  show "\<exists>r t. load ResourceK e md dbp = (Inr r, t) \<and> self_metadata r = md \<and>
         self_data r = Some v \<and> set t \<subseteq> {Fetch} \<and> file_reads t = 0 \<and> http_gets t = 0 \<and>
         data e' r = (Inr (Some v), r, [])"
  proof (cases "type_name (Some v) = ''list'' \<or> type_name (Some v) = ''tuple''")
    case True
    then have "load ResourceK e md dbp = (Inr (stored TabularResourceK md dbp (Some v)), [Fetch])"
      by (simp add: load_Resource f tv)
    then show ?thesis
      by (simp add: data_stored file_reads_def http_gets_def) (simp add: stored_def)
  next
    case False
    then have "load ResourceK e md dbp = (Inr (stored ResourceK md dbp (Some v)), [Fetch, Fetch])"
      by (simp add: load_Resource f tv mismatch_def)
    then show ?thesis
      by (simp add: data_stored file_reads_def http_gets_def) (simp add: stored_def)
  qed
qed

text \<open>The theorem at the descriptor whose inline data is an empty dict.\<close>

theorem inline_data_is_returned_verbatim_witness:
  "load_data demo_env (stored ResourceK (data_descriptor 1 (PDict [])) None None)
     (data_descriptor 1 (PDict [])) = (Inr (Some (PDict [])), [Fetch]) \<and>
   init ResourceK demo_env (data_descriptor 1 (PDict [])) None =
     (Inr (stored ResourceK (data_descriptor 1 (PDict [])) None (Some (PDict []))), [Fetch]) \<and>
   (\<exists>r t. load ResourceK demo_env (data_descriptor 1 (PDict [])) None = (Inr r, t) \<and>
      self_metadata r = data_descriptor 1 (PDict []) \<and> self_data r = Some (PDict []) \<and>
      set t \<subseteq> {Fetch} \<and> file_reads t = 0 \<and> http_gets t = 0 \<and>
      data demo_env r = (Inr (Some (PDict [])), r, []))"
proof -
  have a: "md_data (data_descriptor 1 (PDict [])) = Some (1, PDict [])"
    by (simp add: data_descriptor_def)
  have b: "\<forall>s. PDict [] \<noteq> PStr s"
    by simp
  from inline_data_is_returned_verbatim
    [of "data_descriptor 1 (PDict [])" 1 "PDict []" demo_env
      "stored ResourceK (data_descriptor 1 (PDict [])) None None" None demo_env] a b
  show ?thesis by blast
qed

section \<open>Error precedence\<close>



section \<open>A failed access\<close>

text \<open>
  C4. The claim is that an access of \<^verbatim>\<open>data\<close> that follows a failed one, with the
  descriptor unchanged in between, fetches again. The code does not:
  \<^verbatim>\<open>_parse_data\<close> stores the new snapshot before it fetches, so after the failure the
  snapshot is current and the next access returns the content cached before the
  replacement, without fetching and without an error. Here the instance made for the CSV
  file has its path replaced by a URL whose request fails; the first access raises the
  \<^verbatim>\<open>ResourceError\<close>, the second returns the rows of the old file.
\<close>

theorem failed_access_is_not_retried:
  "fst (load ResourceK demo_env (path_descriptor 1 ''data.csv'') None) =
     Inr (stored TabularResourceK (path_descriptor 1 ''data.csv'') None (Some (PList csv_rows))) \<and>
   data demo_env
       (stored TabularResourceK (path_descriptor 1 ''data.csv'') None (Some (PList csv_rows))
          \<lparr>self_metadata := path_descriptor 2 ''http://example.com/lost''\<rparr>) =
     (Inl (ResourceError (RequestException ''no answer from http://example.com/lost'')),
      stored TabularResourceK (path_descriptor 2 ''http://example.com/lost'') None
        (Some (PList csv_rows)),
      [Fetch, IsFile ''http://example.com/lost'', Get ''http://example.com/lost'']) \<and>
   data demo_env
       (stored TabularResourceK (path_descriptor 2 ''http://example.com/lost'') None
          (Some (PList csv_rows))) =
     (Inr (Some (PList csv_rows)),
      stored TabularResourceK (path_descriptor 2 ''http://example.com/lost'') None
        (Some (PList csv_rows)),
      [])"
  by code_simp

section \<open>Where the type-mismatch error is seen\<close>

text \<open>
  C8, as the code has it. \<^verbatim>\<open>Resource.load\<close> never raises the type-mismatch error, and
  on a plain \<^verbatim>\<open>Resource\<close> it returned no later access of \<^verbatim>\<open>data\<close> raises it,
  whatever the caller puts in the dict before each access.
\<close>

theorem type_mismatch_confined_for_plain_resources:
  "(\<forall>m. fst (load ResourceK e md dbp) \<noteq> Inl (ValueError m)) \<and>
   (\<forall>r t. load ResourceK e md dbp = (Inr r, t) \<and> self_cls r = ResourceK \<longrightarrow>
      (\<forall>m. Inl (ValueError m) \<notin> set (accesses steps r)))"
  by (simp add: load_Resource_no_ValueError accesses_plain)

text \<open>
  The theorem at the plain instance made for the file holding a JSON object, accessed
  after inline data was put in the dict and again after the path was replaced.
\<close>

theorem type_mismatch_confined_for_plain_resources_witness:
  "load ResourceK demo_env (path_descriptor 1 ''object.json'') None =
     (Inr (stored ResourceK (path_descriptor 1 ''object.json'') None (Some (PStr object_text))),
      [Fetch, IsFile ''object.json'', IsFile ''object.json'', Open ''object.json'',
       Fetch, IsFile ''object.json'', IsFile ''object.json'', Open ''object.json'']) \<and>
   self_cls (stored ResourceK (path_descriptor 1 ''object.json'') None (Some (PStr object_text)))
     = ResourceK \<and>
   accesses [(data_descriptor 2 (PDict []), demo_env), (path_descriptor 3 ''header.csv'', demo_env)]
     (stored ResourceK (path_descriptor 1 ''object.json'') None (Some (PStr object_text))) =
     [Inr (Some (PDict [])), Inr (Some (PStr header_only_text))] \<and>
   (\<forall>m. fst (load ResourceK demo_env (path_descriptor 1 ''object.json'') None) \<noteq>
      Inl (ValueError m)) \<and>
   (\<forall>m. Inl (ValueError m) \<notin> set (accesses
      [(data_descriptor 2 (PDict []), demo_env), (path_descriptor 3 ''header.csv'', demo_env)]
      (stored ResourceK (path_descriptor 1 ''object.json'') None (Some (PStr object_text)))))"
proof -
  have a: "load ResourceK demo_env (path_descriptor 1 ''object.json'') None =
     (Inr (stored ResourceK (path_descriptor 1 ''object.json'') None (Some (PStr object_text))),
      [Fetch, IsFile ''object.json'', IsFile ''object.json'', Open ''object.json'',
       Fetch, IsFile ''object.json'', IsFile ''object.json'', Open ''object.json''])"
    by code_simp
  have b: "self_cls (stored ResourceK (path_descriptor 1 ''object.json'') None
      (Some (PStr object_text))) = ResourceK"
    by (simp add: stored_def)
  have c: "accesses
     [(data_descriptor 2 (PDict []), demo_env), (path_descriptor 3 ''header.csv'', demo_env)]
     (stored ResourceK (path_descriptor 1 ''object.json'') None (Some (PStr object_text))) =
     [Inr (Some (PDict [])), Inr (Some (PStr header_only_text))]"
    by code_simp
  from type_mismatch_confined_for_plain_resources
    [of demo_env "path_descriptor 1 ''object.json''" None
      "[(data_descriptor 2 (PDict []), demo_env), (path_descriptor 3 ''header.csv'', demo_env)]"]
    a b c
  show ?thesis by blast
qed

text \<open>
  C8 as stated fails: \<^verbatim>\<open>load\<close> returns a \<^verbatim>\<open>TabularResource\<close> for an inline list;
  when the caller then puts a dict under \<^verbatim>\<open>data\<close>, the access of \<^verbatim>\<open>data\<close> runs
  \<^verbatim>\<open>TabularResource._parse_data\<close> and the type-mismatch error reaches the caller.
\<close>

theorem type_mismatch_escapes_from_data_counterexample:
  "fst (load ResourceK demo_env (data_descriptor 1 (PList [Some (PInt 1)])) None) =
     Inr (stored TabularResourceK (data_descriptor 1 (PList [Some (PInt 1)])) None
            (Some (PList [Some (PInt 1)]))) \<and>
   accesses [(data_descriptor 2 (PDict []), demo_env)]
     (stored TabularResourceK (data_descriptor 1 (PList [Some (PInt 1)])) None
        (Some (PList [Some (PInt 1)]))) =
     [Inl (ValueError (mismatch_message ''dict''))]"
  by code_simp

section \<open>A CSV text with a header row only\<close>

text \<open>
  C9, as the code has it. For a text that \<^verbatim>\<open>json.loads\<close> rejects and in which the CSV
  reader finds no row, \<^verbatim>\<open>TabularResource._parse_data\<close> replaces the empty list of
  rows by \<^verbatim>\<open>None\<close> and the check that follows rejects it: the tabular construction
  fails with the type-mismatch error for \<^verbatim>\<open>NoneType\<close>, and \<^verbatim>\<open>Resource.load\<close>
  returns a plain \<^verbatim>\<open>Resource\<close> whose \<^verbatim>\<open>data\<close> is the raw text.
\<close>

theorem header_only_csv_is_not_tabular:
  "(fetch e md dbp = (Inr (Some (PStr s)), t) \<and>
    json_loads e s = JSONRaises \<and> csv_dictreader e s = Rows [] \<longrightarrow>
      init TabularResourceK e md dbp = (Inl (mismatch None), t) \<and>
      load ResourceK e md dbp = (Inr (stored ResourceK md dbp (Some (PStr s))), t @ t) \<and>
      data e' (stored ResourceK md dbp (Some (PStr s))) =
        (Inr (Some (PStr s)), stored ResourceK md dbp (Some (PStr s)), [])) \<and>
   (Resource_parse_data e self md = (Inr (Some (PStr s)), self', t) \<and>
    json_loads e s = JSONRaises \<and> csv_dictreader e s = Rows [] \<longrightarrow>
      TabularResource_parse_data e self md = (Inl (mismatch None), self', t))"
proof (intro conjI impI)
  assume a: "fetch e md dbp = (Inr (Some (PStr s)), t) \<and>
    json_loads e s = JSONRaises \<and> csv_dictreader e s = Rows []"
  then have v: "tabular_value e (Some (PStr s)) = Inl (mismatch None)"
    by (simp add: tabular_value_def raise_if_isnt_tabular_data_eq)
  from a show "init TabularResourceK e md dbp = (Inl (mismatch None), t)"
    by (simp add: init_TabularResource v)
  from a show "load ResourceK e md dbp = (Inr (stored ResourceK md dbp (Some (PStr s))), t @ t)"
    by (simp add: load_Resource v mismatch_def)
  show "data e' (stored ResourceK md dbp (Some (PStr s))) =
        (Inr (Some (PStr s)), stored ResourceK md dbp (Some (PStr s)), [])"
    by (rule data_stored)
next
  assume "Resource_parse_data e self md = (Inr (Some (PStr s)), self', t) \<and>
    json_loads e s = JSONRaises \<and> csv_dictreader e s = Rows []"
  then show "TabularResource_parse_data e self md = (Inl (mismatch None), self', t)"
    by (simp add: TabularResource_parse_data_def raise_if_isnt_tabular_data_eq)
qed

text \<open>The theorem at the file of the concrete world that holds a header row only.\<close>

theorem header_only_csv_is_not_tabular_witness:
  "fetch demo_env (path_descriptor 1 ''header.csv'') None =
     (Inr (Some (PStr header_only_text)),
      [Fetch, IsFile ''header.csv'', IsFile ''header.csv'', Open ''header.csv'']) \<and>
   json_loads demo_env header_only_text = JSONRaises \<and>
   csv_dictreader demo_env header_only_text = Rows [] \<and>
   init TabularResourceK demo_env (path_descriptor 1 ''header.csv'') None =
     (Inl (mismatch None),
      [Fetch, IsFile ''header.csv'', IsFile ''header.csv'', Open ''header.csv'']) \<and>
   fst (load ResourceK demo_env (path_descriptor 1 ''header.csv'') None) =
     Inr (stored ResourceK (path_descriptor 1 ''header.csv'') None (Some (PStr header_only_text))) \<and>
   TabularResource_parse_data demo_env
       (stored TabularResourceK (path_descriptor 1 ''header.csv'') None (Some (PList csv_rows)))
       (path_descriptor 1 ''header.csv'') =
     (Inl (mismatch None),
      stored TabularResourceK (path_descriptor 1 ''header.csv'') None (Some (PList csv_rows)),
      [Fetch, IsFile ''header.csv'', IsFile ''header.csv'', Open ''header.csv''])"
proof -
  have a: "fetch demo_env (path_descriptor 1 ''header.csv'') None =
     (Inr (Some (PStr header_only_text)),
      [Fetch, IsFile ''header.csv'', IsFile ''header.csv'', Open ''header.csv''])"
    by code_simp
  have b: "json_loads demo_env header_only_text = JSONRaises"
    by code_simp
  have c: "csv_dictreader demo_env header_only_text = Rows []"
    by code_simp
  have d: "Resource_parse_data demo_env
       (stored TabularResourceK (path_descriptor 1 ''header.csv'') None (Some (PList csv_rows)))
       (path_descriptor 1 ''header.csv'') =
     (Inr (Some (PStr header_only_text)),
      stored TabularResourceK (path_descriptor 1 ''header.csv'') None (Some (PList csv_rows)),
      [Fetch, IsFile ''header.csv'', IsFile ''header.csv'', Open ''header.csv''])"
    by code_simp
  note t = header_only_csv_is_not_tabular
    [of demo_env "path_descriptor 1 ''header.csv''" None header_only_text
      "[Fetch, IsFile ''header.csv'', IsFile ''header.csv'', Open ''header.csv'']" demo_env
      "stored TabularResourceK (path_descriptor 1 ''header.csv'') None (Some (PList csv_rows))"
      "stored TabularResourceK (path_descriptor 1 ''header.csv'') None (Some (PList csv_rows))"]
  have g1: "init TabularResourceK demo_env (path_descriptor 1 ''header.csv'') None =
     (Inl (mismatch None),
      [Fetch, IsFile ''header.csv'', IsFile ''header.csv'', Open ''header.csv''])"
    using t a b c by blast
  have "load ResourceK demo_env (path_descriptor 1 ''header.csv'') None =
     (Inr (stored ResourceK (path_descriptor 1 ''header.csv'') None (Some (PStr header_only_text))),
      [Fetch, IsFile ''header.csv'', IsFile ''header.csv'', Open ''header.csv''] @
      [Fetch, IsFile ''header.csv'', IsFile ''header.csv'', Open ''header.csv''])"
    using t a b c by blast
  then have g2: "fst (load ResourceK demo_env (path_descriptor 1 ''header.csv'') None) =
     Inr (stored ResourceK (path_descriptor 1 ''header.csv'') None (Some (PStr header_only_text)))"
    by simp
  have g3: "TabularResource_parse_data demo_env
       (stored TabularResourceK (path_descriptor 1 ''header.csv'') None (Some (PList csv_rows)))
       (path_descriptor 1 ''header.csv'') =
     (Inl (mismatch None),
      stored TabularResourceK (path_descriptor 1 ''header.csv'') None (Some (PList csv_rows)),
      [Fetch, IsFile ''header.csv'', IsFile ''header.csv'', Open ''header.csv''])"
    using t d b c by blast
  show ?thesis using a b c g1 g2 g3 by blast
qed

text \<open>
  C9 as stated fails: for that file no instance has \<^verbatim>\<open>None\<close> as its \<^verbatim>\<open>data\<close>. The
  tabular construction raises, and the instance \<^verbatim>\<open>load\<close> returns has the text.
\<close>

theorem header_only_csv_data_is_not_None_counterexample:
  "init TabularResourceK demo_env (path_descriptor 1 ''header.csv'') None =
     (Inl (ValueError (mismatch_message ''NoneType'')),
      [Fetch, IsFile ''header.csv'', IsFile ''header.csv'', Open ''header.csv'']) \<and>
   fst (load ResourceK demo_env (path_descriptor 1 ''header.csv'') None) =
     Inr (stored ResourceK (path_descriptor 1 ''header.csv'') None (Some (PStr ''a,b\<newline>''))) \<and>
   fst (data demo_env
     (stored ResourceK (path_descriptor 1 ''header.csv'') None (Some (PStr ''a,b\<newline>'')))) =
     Inr (Some (PStr ''a,b\<newline>''))"
  by code_simp

section \<open>What the fallback costs\<close>




end
